theory Spec2Isabelle
  imports Complex_Main "HOL-Library.Word"
begin

section \<open>Kimera-VIO mesher: data model\<close>

text \<open>
  The development follows \<^verbatim>\<open>include/kimera-vio/mesh/Mesher.h\<close>. The first part
  embeds \<^verbatim>\<open>MesherModule\<close>, the pipeline stage that synchronises the front-end and
  the back-end queue; its member functions are defined in the header. The second part is
  about \<^verbatim>\<open>Mesher\<close>, whose member functions are only declared in the header.
  Names are those of the header, a member without its trailing underscore; a field whose
  name is also the name of a parameter elsewhere has a prefix (\<open>frame_\<close>, \<open>nav_\<close>,
  \<open>in_\<close>).
\<close>

subsection \<open>Scalars\<close>

text \<open>
  The typedef of \<^verbatim>\<open>Timestamp\<close> is not among the sources (the header takes it from the
  common type definitions); the header uses \<^verbatim>\<open>std::numeric_limits<Timestamp>::max()\<close>,
  so it is a bounded arithmetic type. It is taken to be \<^verbatim>\<open>std::int64_t\<close>: a 64-bit
  word read with \<open>sint\<close>. The properties below use of the type only that
  \<open>Timestamp_max\<close> is its largest value.
\<close>

type_synonym Timestamp = "64 word"

definition Timestamp_max :: Timestamp where
  "Timestamp_max = 0x7FFFFFFFFFFFFFFF"

type_synonym LandmarkId = int

text \<open>Coordinates are copied through the module and never computed with there.\<close>

type_synonym Point3 = "real \<times> real \<times> real"
type_synonym Vector3 = "real \<times> real \<times> real"
type_synonym KeypointCV = "real \<times> real"
type_synonym KeypointsCV = "KeypointCV list"
type_synonym LandmarkIds = "LandmarkId list"
type_synonym PointsWithIdMap = "LandmarkId \<rightharpoonup> Point3"

subsection \<open>Payloads of the two producers\<close>

text \<open>
  Of the front-end payload the header reads \<^verbatim>\<open>stereo_frame_lkf_\<close>, with its timestamp,
  its left frame (\<^verbatim>\<open>keypoints_\<close>, \<^verbatim>\<open>landmarks_\<close>), \<^verbatim>\<open>right_keypoints_status_\<close> and
  \<^verbatim>\<open>keypoints_3d_\<close>; of the back-end payload it reads \<^verbatim>\<open>W_State_Blkf_\<close>, with
  \<^verbatim>\<open>timestamp_\<close> and \<^verbatim>\<open>pose_\<close>. The status tag \<open>'st\<close> and the pose \<open>'pose\<close> are opaque
  here. A queue entry is a shared pointer: \<open>None\<close> is the null pointer.
\<close>

record Frame =
  frame_keypoints :: KeypointsCV
  frame_landmarks :: LandmarkIds

record 'st StereoFrame =
  getTimestamp :: Timestamp
  getLeftFrame :: Frame
  right_keypoints_status :: "'st list"
  keypoints_3d :: "Vector3 list"

record 'st StereoFrontEndOutputPayload =
  stereo_frame_lkf :: "'st StereoFrame"

record 'pose VioNavStateTimestamped =
  nav_timestamp :: Timestamp
  nav_pose :: 'pose

record 'pose VioBackEndOutputPayload =
  W_State_Blkf :: "'pose VioNavStateTimestamped"

type_synonym 'st MesherFrontendInput = "'st StereoFrontEndOutputPayload option"
type_synonym 'pose MesherBackendInput = "'pose VioBackEndOutputPayload option"

text \<open>\<^verbatim>\<open>struct MesherInput\<close>, with the fields in the order of its constructor.\<close>

record ('st, 'pose) MesherInput =
  in_timestamp :: Timestamp
  in_points_with_id_vio :: PointsWithIdMap
  in_keypoints :: KeypointsCV
  in_keypoints_status :: "'st list"
  in_keypoints_3d :: "Vector3 list"
  in_landmarks :: LandmarkIds
  W_Pose_B :: 'pose

subsection \<open>The queue\<close>

text \<open>
  Modelled from the spec: \<^verbatim>\<open>ThreadsafeQueue\<close> (\<^verbatim>\<open>kimera-vio/utils/ThreadsafeQueue.h\<close>
  is not among the sources). The spec gives its contract: a FIFO with an atomic shutdown
  flag, pushed by the producers and popped by the consumer; after a shutdown every pop,
  blocking or not, returns failure; a non-blocking pop never suspends and fails on an
  empty queue; a blocking pop on an empty queue that is not shut down suspends the
  consumer until a producer pushes or the queue is shut down. A shutdown sets the flag and
  keeps the entries. The spec leaves open what a push on a queue that is shut down does;
  here it is dropped, and no property below pushes on such a queue.
\<close>

record 'a ThreadsafeQueue =
  data_queue :: "'a list"
  shutdown_flag :: bool

definition empty_queue :: "'a ThreadsafeQueue \<Rightarrow> bool" where
  "empty_queue q = (data_queue q = [])"

definition push :: "'a \<Rightarrow> 'a ThreadsafeQueue \<Rightarrow> 'a ThreadsafeQueue" where
  "push v q = (if shutdown_flag q then q else q\<lparr>data_queue := data_queue q @ [v]\<rparr>)"

definition shutdown :: "'a ThreadsafeQueue \<Rightarrow> 'a ThreadsafeQueue" where
  "shutdown q = q\<lparr>shutdown_flag := True\<rparr>"

text \<open>\<open>pop q = None\<close> is the return value \<^verbatim>\<open>false\<close>; the out-parameter is then untouched.\<close>

definition pop :: "'a ThreadsafeQueue \<Rightarrow> ('a \<times> 'a ThreadsafeQueue) option" where
  "pop q =
     (if shutdown_flag q then None
      else case data_queue q of
             [] \<Rightarrow> None
           | v # rest \<Rightarrow> Some (v, q\<lparr>data_queue := rest\<rparr>))"

text \<open>A blocking pop either returns what \<open>pop\<close> returns or keeps the consumer waiting.\<close>

datatype 'r blocking = Returned 'r | Waiting

definition popBlocking :: "'a ThreadsafeQueue \<Rightarrow> ('a \<times> 'a ThreadsafeQueue) option blocking" where
  "popBlocking q =
     (if shutdown_flag q then Returned None
      else case data_queue q of
             [] \<Rightarrow> Waiting
           | v # rest \<Rightarrow> Returned (Some (v, q\<lparr>data_queue := rest\<rparr>)))"

subsection \<open>Logging\<close>

text \<open>
  A log statement appends one entry to the log of the call. \<^verbatim>\<open>LOG(severity)\<close> carries
  its severity, \<^verbatim>\<open>VLOG(n)\<close> its verbosity level (the sink shows it when the global
  verbosity is at least \<open>n\<close>).
\<close>

datatype severity = INFO | WARNING | ERROR | FATAL

datatype log_entry = LOG severity string | VLOG nat string

text \<open>The four messages of \<^verbatim>\<open>getInputPacket\<close>, each with its \<^verbatim>\<open>LOG\<close> statement.\<close>

definition backend_queue_down :: "string \<Rightarrow> log_entry" where
  "backend_queue_down name = LOG WARNING (''Module: '' @ name @ '' - Backend queue is down'')"

definition backend_queue_empty_or_down :: "string \<Rightarrow> log_entry" where
  "backend_queue_empty_or_down name =
     VLOG 1 (''Module: '' @ name @ '' - Backend queue is empty or down'')"

definition frontend_queue_empty_or_shutdown :: "string \<Rightarrow> log_entry" where
  "frontend_queue_empty_or_shutdown name =
     LOG ERROR (name @ [CHR 0x27] @ ''s frontend payload queue is empty or has been shutdown.'')"

definition missing_frontend_payload :: "string \<Rightarrow> log_entry" where
  "missing_frontend_payload name = LOG WARNING (''Missing frontend payload for Module: '' @ name)"

section \<open>MesherModule\<close>

record ('st, 'pose, 'mesher) MesherModule =
  name_id :: string
  parallel_run :: bool
  frontend_payload_queue :: "'st MesherFrontendInput ThreadsafeQueue"
  backend_payload_queue :: "'pose MesherBackendInput ThreadsafeQueue"
  mesher :: 'mesher

text \<open>The constructor: the module is named \<^verbatim>\<open>"Mesher"\<close> and both queues start empty.\<close>

definition MesherModule_new :: "bool \<Rightarrow> 'mesher \<Rightarrow> ('st, 'pose, 'mesher) MesherModule" where
  "MesherModule_new parallel m =
     \<lparr>name_id = ''Mesher'', parallel_run = parallel,
      frontend_payload_queue = \<lparr>data_queue = [], shutdown_flag = False\<rparr>,
      backend_payload_queue = \<lparr>data_queue = [], shutdown_flag = False\<rparr>,
      mesher = m\<rparr>"

definition fillFrontendQueue ::
  "'st MesherFrontendInput \<Rightarrow> ('st, 'pose, 'mesher) MesherModule \<Rightarrow> ('st, 'pose, 'mesher) MesherModule" where
  "fillFrontendQueue frontend_payload m =
     m\<lparr>frontend_payload_queue := push frontend_payload (frontend_payload_queue m)\<rparr>"

definition fillBackendQueue ::
  "'pose MesherBackendInput \<Rightarrow> ('st, 'pose, 'mesher) MesherModule \<Rightarrow> ('st, 'pose, 'mesher) MesherModule" where
  "fillBackendQueue backend_payload m =
     m\<lparr>backend_payload_queue := push backend_payload (backend_payload_queue m)\<rparr>"

definition shutdownQueues ::
  "('st, 'pose, 'mesher) MesherModule \<Rightarrow> ('st, 'pose, 'mesher) MesherModule \<times> log_entry list" where
  "shutdownQueues m =
     (m\<lparr>frontend_payload_queue := shutdown (frontend_payload_queue m),
        backend_payload_queue := shutdown (backend_payload_queue m)\<rparr>,
      [LOG INFO (''Shutting down queues for: '' @ name_id m)])"

text \<open>\<^verbatim>\<open>hasWork\<close>: \<^verbatim>\<open>return backend_payload_queue_.empty();\<close>\<close>

definition hasWork :: "('st, 'pose, 'mesher) MesherModule \<Rightarrow> bool" where
  "hasWork m = empty_queue (backend_payload_queue m)"

subsection \<open>getInputPacket\<close>

text \<open>
  What a call does: it returns a pointer (\<open>nullptr\<close> or a packet), or a \<^verbatim>\<open>CHECK\<close> aborts
  the process, or it dereferences a null pointer, or it stays in the blocking pop.
\<close>

datatype ('st, 'pose) InputPtr = nullptr | Packet "('st, 'pose) MesherInput"

datatype ('st, 'pose) outcome =
    Returns "('st, 'pose) InputPtr"
  | CheckFailed
  | NullDereference
  | Blocked

text \<open>
  The \<^verbatim>\<open>while (timestamp != payload_timestamp)\<close> loop. Its variables are
  \<^verbatim>\<open>payload_timestamp\<close>, \<^verbatim>\<open>frontend_payload\<close>, the front-end queue and the log. It
  leaves either through \<^verbatim>\<open>return nullptr\<close> (\<open>LoopReturnsNull\<close>) or through its guard
  (\<open>LoopExit\<close>, with the value of \<^verbatim>\<open>frontend_payload\<close>).
\<close>

datatype 'st loop_exit = LoopReturnsNull | LoopExit "'st MesherFrontendInput"

function frontend_loop ::
  "string \<Rightarrow> Timestamp \<Rightarrow> Timestamp \<Rightarrow> 'st MesherFrontendInput \<Rightarrow>
   'st MesherFrontendInput ThreadsafeQueue \<Rightarrow> log_entry list \<Rightarrow>
   'st loop_exit \<times> 'st MesherFrontendInput ThreadsafeQueue \<times> log_entry list" where
  "frontend_loop name timestamp payload_timestamp frontend_payload q lg =
     (if timestamp \<noteq> payload_timestamp then
        (case pop q of
           None \<Rightarrow>
             (LoopReturnsNull, q,
              lg @ [frontend_queue_empty_or_shutdown name])
         | Some (popped, q') \<Rightarrow>
             (case popped of
                Some p \<Rightarrow>
                  frontend_loop name timestamp (getTimestamp (stereo_frame_lkf p)) popped q' lg
              | None \<Rightarrow>
                  frontend_loop name timestamp payload_timestamp popped q'
                    (lg @ [missing_frontend_payload name])))
      else (LoopExit frontend_payload, q, lg))"
  by pat_completeness auto
termination
  by (relation "measure (\<lambda>(name, timestamp, payload_timestamp, frontend_payload, q, lg).
                  length (data_queue q))")
     (auto simp: pop_def split: if_splits list.splits)

definition getInputPacket ::
  "('st, 'pose, 'mesher) MesherModule \<Rightarrow>
   ('st, 'pose) outcome \<times> ('st, 'pose, 'mesher) MesherModule \<times> log_entry list" where
  "getInputPacket m =
     (case (if parallel_run m then popBlocking (backend_payload_queue m)
            else Returned (pop (backend_payload_queue m))) of
        Waiting \<Rightarrow> (Blocked, m, [])
      | Returned None \<Rightarrow>
          (Returns nullptr, m,
           (if parallel_run m then [backend_queue_down (name_id m)] else []) @
           (if \<not> parallel_run m then [backend_queue_empty_or_down (name_id m)] else []))
      | Returned (Some (backend_payload, bq')) \<Rightarrow>
          (let m1 = m\<lparr>backend_payload_queue := bq'\<rparr> in
           case backend_payload of
             None \<Rightarrow> (CheckFailed, m1, [LOG FATAL ''Check failed: backend_payload''])
           | Some bp \<Rightarrow>
               (let timestamp = nav_timestamp (W_State_Blkf bp) in
                case frontend_loop (name_id m1) timestamp Timestamp_max None
                       (frontend_payload_queue m1) [] of
                  (LoopReturnsNull, fq', lg) \<Rightarrow>
                    (Returns nullptr, m1\<lparr>frontend_payload_queue := fq'\<rparr>, lg)
                | (LoopExit frontend_payload, fq', lg) \<Rightarrow>
                    (case frontend_payload of
                       None \<Rightarrow> (NullDereference, m1\<lparr>frontend_payload_queue := fq'\<rparr>, lg)
                     | Some fp \<Rightarrow>
                         (let stereo_keyframe = stereo_frame_lkf fp;
                              left_frame = getLeftFrame stereo_keyframe
                          in (Returns (Packet
                                \<lparr>in_timestamp = timestamp,
                                 in_points_with_id_vio = Map.empty,
                                 in_keypoints = frame_keypoints left_frame,
                                 in_keypoints_status = right_keypoints_status stereo_keyframe,
                                 in_keypoints_3d = keypoints_3d stereo_keyframe,
                                 in_landmarks = frame_landmarks left_frame,
                                 W_Pose_B = nav_pose (W_State_Blkf bp)\<rparr>),
                              m1\<lparr>frontend_payload_queue := fq'\<rparr>, lg))))))"

subsection \<open>Notions used to state the properties\<close>

text \<open>A front-end queue entry matches \<open>t\<close> when it is not null and carries timestamp \<open>t\<close>.\<close>

definition has_timestamp :: "Timestamp \<Rightarrow> 'st MesherFrontendInput \<Rightarrow> bool" where
  "has_timestamp t e =
     (case e of None \<Rightarrow> False | Some p \<Rightarrow> getTimestamp (stereo_frame_lkf p) = t)"

text \<open>The timestamps of the non-null entries of a queue, in queue order.\<close>

fun frontend_timestamps :: "'st MesherFrontendInput list \<Rightarrow> Timestamp list" where
  "frontend_timestamps [] = []"
| "frontend_timestamps (None # es) = frontend_timestamps es"
| "frontend_timestamps (Some p # es) = getTimestamp (stereo_frame_lkf p) # frontend_timestamps es"

text \<open>One warning per null entry among the entries popped.\<close>

definition missing_payload_warnings :: "string \<Rightarrow> 'st MesherFrontendInput list \<Rightarrow> log_entry list" where
  "missing_payload_warnings name es =
     map (\<lambda>e. missing_frontend_payload name) (filter (\<lambda>e. e = None) es)"

text \<open>
  The packet that pairs a back-end payload with a front-end payload and carries the
  landmark map \<open>lmks\<close>: the fields of the \<^verbatim>\<open>make_unique<MesherInput>\<close> call of
  \<^verbatim>\<open>getInputPacket\<close>, which passes the empty map for \<open>lmks\<close>.
\<close>

definition synced_packet ::
  "PointsWithIdMap \<Rightarrow> 'pose VioBackEndOutputPayload \<Rightarrow> 'st StereoFrontEndOutputPayload \<Rightarrow>
   ('st, 'pose) MesherInput" where
  "synced_packet lmks bp fp =
     \<lparr>in_timestamp = nav_timestamp (W_State_Blkf bp),
      in_points_with_id_vio = lmks,
      in_keypoints = frame_keypoints (getLeftFrame (stereo_frame_lkf fp)),
      in_keypoints_status = right_keypoints_status (stereo_frame_lkf fp),
      in_keypoints_3d = keypoints_3d (stereo_frame_lkf fp),
      in_landmarks = frame_landmarks (getLeftFrame (stereo_frame_lkf fp)),
      W_Pose_B = nav_pose (W_State_Blkf bp)\<rparr>"

subsection \<open>Example payloads and modules\<close>

definition example_frontend :: "Timestamp \<Rightarrow> nat StereoFrontEndOutputPayload" where
  "example_frontend t =
     \<lparr>stereo_frame_lkf =
        \<lparr>getTimestamp = t, getLeftFrame = \<lparr>frame_keypoints = [(1, 2)], frame_landmarks = [7]\<rparr>,
         right_keypoints_status = [0], keypoints_3d = [(0, 0, 1)]\<rparr>\<rparr>"

definition example_backend :: "Timestamp \<Rightarrow> nat VioBackEndOutputPayload" where
  "example_backend t = \<lparr>W_State_Blkf = \<lparr>nav_timestamp = t, nav_pose = 42\<rparr>\<rparr>"

text \<open>
  A module in step or parallel mode whose producers have pushed back-end payloads with
  the timestamps \<open>backend_ts\<close> and front-end payloads with the timestamps
  \<open>frontend_ts\<close>, in that order.
\<close>

definition example_module ::
  "bool \<Rightarrow> Timestamp list \<Rightarrow> Timestamp list \<Rightarrow> (nat, nat, nat) MesherModule" where
  "example_module parallel backend_ts frontend_ts =
     fold fillFrontendQueue (map (Some \<circ> example_frontend) frontend_ts)
       (fold fillBackendQueue (map (Some \<circ> example_backend) backend_ts)
          (MesherModule_new parallel 0))"

section \<open>Mesher\<close>

text \<open>
  The header declares the member functions of \<^verbatim>\<open>Mesher\<close> and documents them; their
  bodies (\<^verbatim>\<open>Mesher.cpp\<close>) and the mesh and plane types (\<^verbatim>\<open>Mesh.h\<close>) are not among the
  sources. The definitions of this section are written from the spec (sections 3, 4.2
  and 4.3) and from the declarations and comments of the header. The functions below
  that change the member \<^verbatim>\<open>mesh_3d_\<close> take its value before and return its value after.
  Coordinates and thresholds are \<^verbatim>\<open>double\<close> in the header and real numbers here.
\<close>

subsection \<open>The 3D mesh\<close>

text \<open>
  Modelled from the spec: \<^verbatim>\<open>Mesh3D\<close> and its vertices and polygons (\<^verbatim>\<open>Mesh.h\<close> is
  missing). A vertex is a 3D position tagged with its \<^verbatim>\<open>LandmarkId\<close>; a polygon is a
  triangle; the mesh is its list of polygons, and its vertices are those of its polygons.
\<close>

record Vertex =
  getLmkId :: LandmarkId
  getVertexPosition :: Point3

type_synonym Polygon = "Vertex \<times> Vertex \<times> Vertex"
type_synonym Mesh3D = "Polygon list"

definition polygon_vertices :: "Polygon \<Rightarrow> Vertex list" where
  "polygon_vertices polygon = (case polygon of (v1, v2, v3) \<Rightarrow> [v1, v2, v3])"

definition polygon_lmk_ids :: "Polygon \<Rightarrow> LandmarkIds" where
  "polygon_lmk_ids polygon = map getLmkId (polygon_vertices polygon)"

text \<open>The length of an edge, \<^verbatim>\<open>cv::norm(p1 - p2)\<close>.\<close>

definition edge_length :: "Point3 \<Rightarrow> Point3 \<Rightarrow> real" where
  "edge_length p q =
     (case (p, q) of
        ((x1, y1, z1), (x2, y2, z2)) \<Rightarrow> sqrt ((x1 - x2)\<^sup>2 + (y1 - y2)\<^sup>2 + (z1 - z2)\<^sup>2))"

text \<open>The three edge lengths \<open>(d12, d23, d31)\<close> of a polygon.\<close>

definition edge_lengths :: "Polygon \<Rightarrow> real \<times> real \<times> real" where
  "edge_lengths polygon =
     (case polygon of
        (v1, v2, v3) \<Rightarrow>
          (edge_length (getVertexPosition v1) (getVertexPosition v2),
           edge_length (getVertexPosition v2) (getVertexPosition v3),
           edge_length (getVertexPosition v3) (getVertexPosition v1)))"

subsection \<open>Rejecting bad triangles\<close>

text \<open>
  Modelled from the spec: \<^verbatim>\<open>getRatioBetweenSmallestAndLargestSide\<close>, \<^verbatim>\<open>isBadTriangle\<close>
  and \<^verbatim>\<open>filterOutBadTriangles\<close> (declared in the header, bodies missing). Section 4.2,
  step 4: a lifted triangle is rejected if any of three tests fires. Elongation: the ratio
  of the shortest to the longest of its three edge lengths falls below the configured
  minimum. Span: its longest edge exceeds the configured maximum length. View angle: the
  ratio between its tangential and its radial displacement, relative to the camera pose,
  falls below the configured minimum elongation ratio. The last ratio
  (\<^verbatim>\<open>getRatioBetweenTangentialAndRadialDisplacement\<close>) is described by neither the spec
  nor the header: it is the parameter \<open>tangential_radial\<close>.
\<close>

definition getRatioBetweenSmallestAndLargestSide :: "real \<Rightarrow> real \<Rightarrow> real \<Rightarrow> real" where
  "getRatioBetweenSmallestAndLargestSide d12 d23 d31 =
     min d12 (min d23 d31) / max d12 (max d23 d31)"

text \<open>
  Modelled from the spec: \<^verbatim>\<open>isBadTriangle\<close> (body missing), the three tests of
  section 4.2, step 4.
\<close>

definition isBadTriangle ::
  "('pose \<Rightarrow> Point3 \<Rightarrow> Point3 \<Rightarrow> Point3 \<Rightarrow> real) \<Rightarrow>
   Polygon \<Rightarrow> 'pose \<Rightarrow> real \<Rightarrow> real \<Rightarrow> real \<Rightarrow> bool" where
  "isBadTriangle tangential_radial polygon left_camera_pose
     min_ratio_between_largest_an_smallest_side min_elongation_ratio max_triangle_side =
     (case polygon of
        (v1, v2, v3) \<Rightarrow>
          (let p1 = getVertexPosition v1; p2 = getVertexPosition v2; p3 = getVertexPosition v3;
               d12 = edge_length p1 p2; d23 = edge_length p2 p3; d31 = edge_length p3 p1
           in getRatioBetweenSmallestAndLargestSide d12 d23 d31
                < min_ratio_between_largest_an_smallest_side
              \<or> max_triangle_side < max d12 (max d23 d31)
              \<or> tangential_radial left_camera_pose p1 p2 p3 < min_elongation_ratio))"

text \<open>The view-angle ratio of a polygon, as \<^verbatim>\<open>isBadTriangle\<close> computes it.\<close>

definition view_angle_ratio ::
  "('pose \<Rightarrow> Point3 \<Rightarrow> Point3 \<Rightarrow> Point3 \<Rightarrow> real) \<Rightarrow> 'pose \<Rightarrow> Polygon \<Rightarrow> real" where
  "view_angle_ratio tangential_radial left_camera_pose polygon =
     (case polygon of
        (v1, v2, v3) \<Rightarrow>
          tangential_radial left_camera_pose (getVertexPosition v1) (getVertexPosition v2)
            (getVertexPosition v3))"

text \<open>
  Modelled from the spec: \<^verbatim>\<open>filterOutBadTriangles\<close> (body missing) keeps the polygons
  of the mesh that are not bad triangles.
\<close>

definition filterOutBadTriangles ::
  "('pose \<Rightarrow> Point3 \<Rightarrow> Point3 \<Rightarrow> Point3 \<Rightarrow> real) \<Rightarrow>
   'pose \<Rightarrow> real \<Rightarrow> real \<Rightarrow> real \<Rightarrow> Mesh3D \<Rightarrow> Mesh3D" where
  "filterOutBadTriangles tangential_radial leftCameraPose minRatioBetweenLargestAnSmallestSide
     min_elongation_ratio maxTriangleSide mesh_3d =
     filter (\<lambda>polygon. \<not> isBadTriangle tangential_radial polygon leftCameraPose
               minRatioBetweenLargestAnSmallestSide min_elongation_ratio maxTriangleSide)
       mesh_3d"

subsection \<open>Lifting the 2D triangles and the time horizon\<close>

text \<open>
  Modelled from the spec: \<^verbatim>\<open>populate3dMesh\<close>, \<^verbatim>\<open>updatePolygonMeshToTimeHorizon\<close> and
  \<^verbatim>\<open>populate3dMeshTimeHorizon\<close> (declared in the header, bodies missing). Section 4.2:
  a 2D triangle is three pixel positions (\<^verbatim>\<open>cv::Vec6f\<close>), each associated back to a
  \<^verbatim>\<open>LandmarkId\<close> by a lookup keyed on position in the frame's keypoints (step 2); its
  three landmarks are looked up in the points map and the triangle is discarded if any
  is unresolved (step 3); a lifted triangle that is not bad is added to the mesh
  (step 4); a polygon with a vertex whose landmark has left the points map is dropped
  (step 5; header: "Reduce the 3D mesh to the current VIO lmks only", "The 3D mesh
  contains, at any given time, only points that are in points_with_id_map"). The header
  gives \<^verbatim>\<open>reduce_mesh_to_time_horizon\<close> the default \<^verbatim>\<open>true\<close>, which
  \<^verbatim>\<open>populate3dMeshTimeHorizon\<close> uses; with \<^verbatim>\<open>false\<close> nothing is dropped.
\<close>

type_synonym Vec6f = "KeypointCV \<times> KeypointCV \<times> KeypointCV"

definition findLmkIdFromPixel :: "KeypointCV \<Rightarrow> KeypointsCV \<Rightarrow> LandmarkIds \<Rightarrow> LandmarkId option" where
  "findLmkIdFromPixel pixel keypoints landmarks = map_of (zip keypoints landmarks) pixel"

definition lift_pixel ::
  "PointsWithIdMap \<Rightarrow> KeypointsCV \<Rightarrow> LandmarkIds \<Rightarrow> KeypointCV \<Rightarrow> Vertex option" where
  "lift_pixel points_with_id_map keypoints landmarks pixel =
     (case findLmkIdFromPixel pixel keypoints landmarks of
        None \<Rightarrow> None
      | Some lmk_id \<Rightarrow>
          (case points_with_id_map lmk_id of
             None \<Rightarrow> None
           | Some point \<Rightarrow> Some \<lparr>getLmkId = lmk_id, getVertexPosition = point\<rparr>))"

definition lift_triangle ::
  "PointsWithIdMap \<Rightarrow> KeypointsCV \<Rightarrow> LandmarkIds \<Rightarrow> Vec6f \<Rightarrow> Polygon option" where
  "lift_triangle points_with_id_map keypoints landmarks triangle_2d =
     (case triangle_2d of
        (px1, px2, px3) \<Rightarrow>
          (case lift_pixel points_with_id_map keypoints landmarks px1 of
             None \<Rightarrow> None
           | Some v1 \<Rightarrow>
               (case lift_pixel points_with_id_map keypoints landmarks px2 of
                  None \<Rightarrow> None
                | Some v2 \<Rightarrow>
                    (case lift_pixel points_with_id_map keypoints landmarks px3 of
                       None \<Rightarrow> None
                     | Some v3 \<Rightarrow> Some (v1, v2, v3)))))"

text \<open>
  Modelled from the spec: \<^verbatim>\<open>populate3dMesh\<close> (body missing), steps 3 and 4 of
  section 4.2 for each 2D triangle in turn.
\<close>

fun populate3dMesh ::
  "('pose \<Rightarrow> Point3 \<Rightarrow> Point3 \<Rightarrow> Point3 \<Rightarrow> real) \<Rightarrow>
   Vec6f list \<Rightarrow> PointsWithIdMap \<Rightarrow> KeypointsCV \<Rightarrow> LandmarkIds \<Rightarrow> 'pose \<Rightarrow>
   real \<Rightarrow> real \<Rightarrow> real \<Rightarrow> Mesh3D \<Rightarrow> Mesh3D" where
  "populate3dMesh tangential_radial [] points_with_id_map keypoints landmarks left_cam_pose
     min_ratio_largest_smallest_side min_elongation_ratio max_triangle_side mesh_3d = mesh_3d"
| "populate3dMesh tangential_radial (triangle_2d # mesh_2d_pixels) points_with_id_map keypoints
     landmarks left_cam_pose min_ratio_largest_smallest_side min_elongation_ratio
     max_triangle_side mesh_3d =
     populate3dMesh tangential_radial mesh_2d_pixels points_with_id_map keypoints landmarks
       left_cam_pose min_ratio_largest_smallest_side min_elongation_ratio max_triangle_side
       (case lift_triangle points_with_id_map keypoints landmarks triangle_2d of
          None \<Rightarrow> mesh_3d
        | Some polygon \<Rightarrow>
            if isBadTriangle tangential_radial polygon left_cam_pose
                 min_ratio_largest_smallest_side min_elongation_ratio max_triangle_side
            then mesh_3d else mesh_3d @ [polygon])"

text \<open>
  Modelled from the spec: \<^verbatim>\<open>updatePolygonMeshToTimeHorizon\<close> (body missing), step 5 of
  section 4.2. Of the parameters of the declaration the points map and the flag are
  kept: the spec does not say what the camera pose and the two thresholds serve there.
\<close>

definition updatePolygonMeshToTimeHorizon ::
  "PointsWithIdMap \<Rightarrow> bool \<Rightarrow> Mesh3D \<Rightarrow> Mesh3D" where
  "updatePolygonMeshToTimeHorizon points_with_id_map reduce_mesh_to_time_horizon mesh_3d =
     filter (\<lambda>polygon.
               if reduce_mesh_to_time_horizon
               then list_all (\<lambda>vertex. points_with_id_map (getLmkId vertex) \<noteq> None)
                      (polygon_vertices polygon)
               else True)
       mesh_3d"

text \<open>
  Modelled from the spec: \<^verbatim>\<open>populate3dMeshTimeHorizon\<close> (body missing): the lifted
  triangles are added, then the mesh is reduced to the time horizon.
\<close>

definition populate3dMeshTimeHorizon ::
  "('pose \<Rightarrow> Point3 \<Rightarrow> Point3 \<Rightarrow> Point3 \<Rightarrow> real) \<Rightarrow>
   Vec6f list \<Rightarrow> PointsWithIdMap \<Rightarrow> KeypointsCV \<Rightarrow> LandmarkIds \<Rightarrow> 'pose \<Rightarrow>
   real \<Rightarrow> real \<Rightarrow> real \<Rightarrow> Mesh3D \<Rightarrow> Mesh3D" where
  "populate3dMeshTimeHorizon tangential_radial mesh_2d_pixels points_with_id_map keypoints
     landmarks left_cam_pose min_ratio_largest_smallest_side min_elongation_ratio
     max_triangle_side mesh_3d =
     updatePolygonMeshToTimeHorizon points_with_id_map True
       (populate3dMesh tangential_radial mesh_2d_pixels points_with_id_map keypoints landmarks
          left_cam_pose min_ratio_largest_smallest_side min_elongation_ratio max_triangle_side
          mesh_3d)"

subsection \<open>Landmarks of the planes\<close>

text \<open>
  Modelled from the spec: \<^verbatim>\<open>Plane\<close> (section 3) and the landmark association of
  section 4.3, step 5: \<^verbatim>\<open>appendLmkIdsOfPolygon\<close>, \<^verbatim>\<open>updatePlanesLmkIdsFromPolygon\<close> and
  \<^verbatim>\<open>updatePlanesLmkIdsFromMesh\<close> (declared in the header, bodies missing). For every
  polygon of the mesh whose normal can be computed, and every tracked plane the polygon
  is within the normal tolerance and the distance tolerance of, the polygon's three
  landmark ids are appended to the plane's landmark ids, an id already present not being
  added again; a flag chooses between associating a polygon to the first plane it
  matches and to all of them. Header, on \<^verbatim>\<open>appendLmkIdsOfPolygon\<close>: when extra landmarks
  from stereo are in use only ids found in \<^verbatim>\<open>points_with_id_vio\<close> are appended. Header,
  on \<^verbatim>\<open>isPolygonAtDistanceFromPlane\<close>: all points of the polygon are closer than the
  tolerance to the plane. The normal of a triangle (\<^verbatim>\<open>calculateNormal\<close>, which can fail)
  and the test \<^verbatim>\<open>isNormalAroundAxis\<close> are described by neither the spec nor the header
  beyond their signatures: they are the parameters \<open>calculate_normal\<close> and
  \<open>normal_around_axis\<close>.
\<close>

datatype Orientation = Horizontal | Vertical

record Plane =
  plane_id :: nat
  orientation :: Orientation
  normal :: Point3
  plane_distance :: real
  lmk_ids :: LandmarkIds

definition dot :: "Point3 \<Rightarrow> Point3 \<Rightarrow> real" where
  "dot p q = (case (p, q) of ((x1, y1, z1), (x2, y2, z2)) \<Rightarrow> x1 * x2 + y1 * y2 + z1 * z2)"

definition isPointAtDistanceFromPlane :: "Point3 \<Rightarrow> real \<Rightarrow> Point3 \<Rightarrow> real \<Rightarrow> bool" where
  "isPointAtDistanceFromPlane point plane_dist plane_normal distance_tolerance =
     (\<bar>plane_dist - dot point plane_normal\<bar> \<le> distance_tolerance)"

definition isPolygonAtDistanceFromPlane :: "Polygon \<Rightarrow> real \<Rightarrow> Point3 \<Rightarrow> real \<Rightarrow> bool" where
  "isPolygonAtDistanceFromPlane polygon plane_dist plane_normal distance_tolerance =
     list_all (\<lambda>vertex. isPointAtDistanceFromPlane (getVertexPosition vertex) plane_dist
                  plane_normal distance_tolerance)
       (polygon_vertices polygon)"

text \<open>
  \<open>add_extra_lmks_from_stereo\<close> says whether extra landmarks from stereo are in use.
\<close>

definition append_lmk_id :: "bool \<Rightarrow> PointsWithIdMap \<Rightarrow> LandmarkId \<Rightarrow> LandmarkIds \<Rightarrow> LandmarkIds" where
  "append_lmk_id add_extra_lmks_from_stereo points_with_id_vio lmk_id ids =
     (if lmk_id \<in> set ids then ids
      else if add_extra_lmks_from_stereo
      then (if points_with_id_vio lmk_id \<noteq> None then ids @ [lmk_id] else ids)
      else ids @ [lmk_id])"

text \<open>
  Modelled from the spec: \<^verbatim>\<open>appendLmkIdsOfPolygon\<close> (body missing) appends the three
  landmark ids of a polygon, none twice.
\<close>

definition appendLmkIdsOfPolygon ::
  "bool \<Rightarrow> Polygon \<Rightarrow> LandmarkIds \<Rightarrow> PointsWithIdMap \<Rightarrow> LandmarkIds" where
  "appendLmkIdsOfPolygon add_extra_lmks_from_stereo polygon ids points_with_id_vio =
     fold (append_lmk_id add_extra_lmks_from_stereo points_with_id_vio)
       (polygon_lmk_ids polygon) ids"

text \<open>
  Modelled from the spec: \<^verbatim>\<open>updatePlanesLmkIdsFromPolygon\<close> (body missing) goes through
  the planes in order; the \<^verbatim>\<open>bool\<close> it returns is documented nowhere and left out.
\<close>

fun updatePlanesLmkIdsFromPolygon ::
  "(Point3 \<Rightarrow> Point3 \<Rightarrow> real \<Rightarrow> bool) \<Rightarrow> bool \<Rightarrow>
   Plane list \<Rightarrow> Polygon \<Rightarrow> Point3 \<Rightarrow> real \<Rightarrow> real \<Rightarrow> PointsWithIdMap \<Rightarrow> bool \<Rightarrow> Plane list" where
  "updatePlanesLmkIdsFromPolygon normal_around_axis add_extra_lmks_from_stereo
     [] polygon triangle_normal normal_tolerance distance_tolerance points_with_id_vio
     only_associate_a_polygon_to_a_single_plane = []"
| "updatePlanesLmkIdsFromPolygon normal_around_axis add_extra_lmks_from_stereo
     (plane # seed_planes) polygon triangle_normal normal_tolerance distance_tolerance
     points_with_id_vio only_associate_a_polygon_to_a_single_plane =
     (if normal_around_axis (normal plane) triangle_normal normal_tolerance \<and>
         isPolygonAtDistanceFromPlane polygon (plane_distance plane) (normal plane)
           distance_tolerance
      then plane\<lparr>lmk_ids := appendLmkIdsOfPolygon add_extra_lmks_from_stereo polygon
                               (lmk_ids plane) points_with_id_vio\<rparr> #
           (if only_associate_a_polygon_to_a_single_plane then seed_planes
            else updatePlanesLmkIdsFromPolygon normal_around_axis add_extra_lmks_from_stereo
                   seed_planes polygon triangle_normal normal_tolerance distance_tolerance
                   points_with_id_vio only_associate_a_polygon_to_a_single_plane)
      else plane #
           updatePlanesLmkIdsFromPolygon normal_around_axis add_extra_lmks_from_stereo
             seed_planes polygon triangle_normal normal_tolerance distance_tolerance
             points_with_id_vio only_associate_a_polygon_to_a_single_plane)"

text \<open>One polygon of the mesh: polygons without a normal are skipped.\<close>

definition update_planes_from_mesh_polygon ::
  "(Point3 \<Rightarrow> Point3 \<Rightarrow> Point3 \<Rightarrow> Point3 option) \<Rightarrow> (Point3 \<Rightarrow> Point3 \<Rightarrow> real \<Rightarrow> bool) \<Rightarrow>
   bool \<Rightarrow> bool \<Rightarrow> real \<Rightarrow> real \<Rightarrow> PointsWithIdMap \<Rightarrow> Polygon \<Rightarrow> Plane list \<Rightarrow> Plane list" where
  "update_planes_from_mesh_polygon calculate_normal normal_around_axis add_extra_lmks_from_stereo
     only_associate_a_polygon_to_a_single_plane normal_tolerance distance_tolerance
     points_with_id_vio polygon planes =
     (case polygon of
        (v1, v2, v3) \<Rightarrow>
          (case calculate_normal (getVertexPosition v1) (getVertexPosition v2)
                  (getVertexPosition v3) of
             None \<Rightarrow> planes
           | Some triangle_normal \<Rightarrow>
               updatePlanesLmkIdsFromPolygon normal_around_axis add_extra_lmks_from_stereo
                 planes polygon triangle_normal normal_tolerance distance_tolerance
                 points_with_id_vio only_associate_a_polygon_to_a_single_plane))"

text \<open>
  Modelled from the spec: \<^verbatim>\<open>updatePlanesLmkIdsFromMesh\<close> (body missing) loops over the
  polygons of the mesh (the member \<^verbatim>\<open>mesh_3d_\<close>, here the argument \<open>mesh_3d\<close>).
\<close>

definition updatePlanesLmkIdsFromMesh ::
  "(Point3 \<Rightarrow> Point3 \<Rightarrow> Point3 \<Rightarrow> Point3 option) \<Rightarrow> (Point3 \<Rightarrow> Point3 \<Rightarrow> real \<Rightarrow> bool) \<Rightarrow>
   bool \<Rightarrow> bool \<Rightarrow> Mesh3D \<Rightarrow>
   Plane list \<Rightarrow> real \<Rightarrow> real \<Rightarrow> PointsWithIdMap \<Rightarrow> Plane list" where
  "updatePlanesLmkIdsFromMesh calculate_normal normal_around_axis add_extra_lmks_from_stereo
     only_associate_a_polygon_to_a_single_plane mesh_3d
     planes normal_tolerance distance_tolerance points_with_id_vio =
     fold (update_planes_from_mesh_polygon calculate_normal normal_around_axis
             add_extra_lmks_from_stereo only_associate_a_polygon_to_a_single_plane
             normal_tolerance distance_tolerance points_with_id_vio)
       mesh_3d planes"

text \<open>
  Plane \<open>b\<close> is plane \<open>a\<close> with more landmark ids: the relation between a plane before
  and after an update.
\<close>

definition grown :: "Plane \<Rightarrow> Plane \<Rightarrow> bool" where
  "grown a b = (b = a\<lparr>lmk_ids := lmk_ids b\<rparr> \<and> set (lmk_ids a) \<subseteq> set (lmk_ids b))"

subsection \<open>Segmentation and association of planes\<close>

text \<open>
  Modelled from the spec: the primitives and the tolerances of the plane segmentation of
  section 4.3. The header declares \<^verbatim>\<open>calculateNormal\<close>, \<^verbatim>\<open>isNormalAroundAxis\<close>,
  \<^verbatim>\<open>isNormalPerpendicularToAxis\<close> and \<^verbatim>\<open>getLongitude\<close> without bodies, and the histograms
  with their peak detection are not in the sources: they are fields here, the detection
  of the peaks of the 1D histogram of heights and of the 2D histogram of angle and
  distance as functions from the samples to the peaks. The tolerances are the arguments
  of \<^verbatim>\<open>segmentPlanesInMesh\<close> and \<^verbatim>\<open>associatePlanes\<close>; the two flags are the ones of the
  landmark association.
\<close>

record PlaneSegmentation =
  calculateNormal :: "Point3 \<Rightarrow> Point3 \<Rightarrow> Point3 \<Rightarrow> Point3 option"
  isNormalAroundAxis :: "Point3 \<Rightarrow> Point3 \<Rightarrow> real \<Rightarrow> bool"
  isNormalPerpendicularToAxis :: "Point3 \<Rightarrow> Point3 \<Rightarrow> real \<Rightarrow> bool"
  getLongitude :: "Point3 \<Rightarrow> Point3 \<Rightarrow> real"
  histogram_peaks_1d :: "real list \<Rightarrow> real list"
  histogram_peaks_2d :: "(real \<times> real) list \<Rightarrow> (real \<times> real) list"
  normal_tolerance_polygon_plane_association :: real
  distance_tolerance_polygon_plane_association :: real
  normal_tolerance_horizontal_surface :: real
  normal_tolerance_walls :: real
  normal_tolerance_plane_plane_association :: real
  distance_tolerance_plane_plane_association :: real
  use_extra_lmks_from_stereo :: bool
  associate_a_polygon_to_a_single_plane :: bool

text \<open>
  Modelled from the spec: the known vertical direction. The header speaks of the z
  components of the horizontal planes and of the yaw angle of the walls, so it is the z
  axis.
\<close>

definition vertical :: Point3 where
  "vertical = (0, 0, 1)"

text \<open>
  Modelled from the spec: step 1, the normal of a polygon, if it can be computed.
\<close>

definition polygon_normal :: "PlaneSegmentation \<Rightarrow> Polygon \<Rightarrow> Point3 option" where
  "polygon_normal s polygon =
     (case polygon of
        (v1, v2, v3) \<Rightarrow>
          calculateNormal s (getVertexPosition v1) (getVertexPosition v2) (getVertexPosition v3))"

text \<open>
  Modelled from the spec: the point that represents a polygon in the histograms. The spec
  speaks of the polygon's representative height and perpendicular distance without naming
  the point; the first vertex is taken.
\<close>

definition representative_point :: "Polygon \<Rightarrow> Point3" where
  "representative_point polygon = (case polygon of (v1, v2, v3) \<Rightarrow> getVertexPosition v1)"

text \<open>
  Modelled from the spec: steps 2 and 3, the samples of the 1D histogram. A polygon whose
  normal is within tolerance of the vertical is a horizontal candidate and contributes
  its height, the distance of its representative point along the vertical; a polygon
  without a normal contributes nothing.
\<close>

definition z_components :: "PlaneSegmentation \<Rightarrow> Mesh3D \<Rightarrow> real list" where
  "z_components s mesh_3d =
     concat (map (\<lambda>polygon.
        case polygon_normal s polygon of
          None \<Rightarrow> []
        | Some triangle_normal \<Rightarrow>
            if isNormalAroundAxis s vertical triangle_normal
                 (normal_tolerance_horizontal_surface s)
            then [dot (representative_point polygon) vertical]
            else []) mesh_3d)"

text \<open>
  Modelled from the spec: steps 2 and 3, the samples of the 2D histogram. A polygon whose
  normal is within tolerance of perpendicular to the vertical is a wall candidate and
  contributes its orientation angle and its perpendicular distance.
\<close>

definition walls :: "PlaneSegmentation \<Rightarrow> Mesh3D \<Rightarrow> (real \<times> real) list" where
  "walls s mesh_3d =
     concat (map (\<lambda>polygon.
        case polygon_normal s polygon of
          None \<Rightarrow> []
        | Some triangle_normal \<Rightarrow>
            if isNormalPerpendicularToAxis s vertical triangle_normal (normal_tolerance_walls s)
            then [(getLongitude s triangle_normal vertical,
                   dot (representative_point polygon) triangle_normal)]
            else []) mesh_3d)"

text \<open>
  Modelled from the spec: step 3, \<^verbatim>\<open>segmentHorizontalPlanes\<close> (body missing). Each peak of
  the 1D histogram seeds a candidate horizontal plane at that height, with no landmarks
  yet; the candidates are numbered from \<open>plane_id\<close> on.
\<close>

definition segmentHorizontalPlanes ::
  "PlaneSegmentation \<Rightarrow> nat \<Rightarrow> Point3 \<Rightarrow> real list \<Rightarrow> Plane list" where
  "segmentHorizontalPlanes s first_plane_id plane_normal heights =
     map (\<lambda>(i, height).
            \<lparr>plane_id = i, orientation = Horizontal, normal = plane_normal,
             plane_distance = height, lmk_ids = []\<rparr>)
       (enumerate first_plane_id (histogram_peaks_1d s heights))"

text \<open>
  Modelled from the spec: step 3, \<^verbatim>\<open>segmentWalls\<close> (body missing). Each peak of the 2D
  histogram seeds a candidate vertical plane with that orientation, the horizontal
  direction at that angle, and that offset.
\<close>

definition segmentWalls ::
  "PlaneSegmentation \<Rightarrow> nat \<Rightarrow> (real \<times> real) list \<Rightarrow> Plane list" where
  "segmentWalls s first_plane_id angles_and_distances =
     map (\<lambda>(i, theta, distance).
            \<lparr>plane_id = i, orientation = Vertical, normal = (cos theta, sin theta, 0),
             plane_distance = distance, lmk_ids = []\<rparr>)
       (enumerate first_plane_id (histogram_peaks_2d s angles_and_distances))"

text \<open>
  Modelled from the spec: step 3, \<^verbatim>\<open>segmentNewPlanes\<close> (body missing): the horizontal
  candidates, then the walls.
\<close>

definition segmentNewPlanes ::
  "PlaneSegmentation \<Rightarrow> nat \<Rightarrow> real list \<Rightarrow> (real \<times> real) list \<Rightarrow> Plane list" where
  "segmentNewPlanes s first_plane_id heights angles_and_distances =
     (let horizontal_planes = segmentHorizontalPlanes s first_plane_id vertical heights
      in horizontal_planes @
         segmentWalls s (first_plane_id + length horizontal_planes) angles_and_distances)"

text \<open>
  Modelled from the spec: step 4, the match of a candidate with a tracked plane, by the
  two joint tolerances: the normals are close and the signed distances are close.
\<close>

definition planes_match :: "PlaneSegmentation \<Rightarrow> real \<Rightarrow> real \<Rightarrow> Plane \<Rightarrow> Plane \<Rightarrow> bool" where
  "planes_match s normal_tol distance_tol segmented_plane plane =
     (isNormalAroundAxis s (normal plane) (normal segmented_plane) normal_tol \<and>
      \<bar>plane_distance plane - plane_distance segmented_plane\<bar> \<le> distance_tol)"

text \<open>
  Modelled from the spec: step 4, \<^verbatim>\<open>associatePlanes\<close> (body missing). Header: it just
  outputs the set of planes that could not be associated and does not change the
  original planes; so the refinement of a matched plane's normal and distance, which the
  spec calls optional, is not done.
\<close>

definition associatePlanes ::
  "PlaneSegmentation \<Rightarrow> Plane list \<Rightarrow> Plane list \<Rightarrow> real \<Rightarrow> real \<Rightarrow> Plane list" where
  "associatePlanes s segmented_planes planes normal_tol distance_tol =
     filter (\<lambda>segmented_plane.
               \<not> list_ex (planes_match s normal_tol distance_tol segmented_plane) planes)
       segmented_planes"

text \<open>
  Modelled from the spec: step 4, a fresh identifier: one more than every identifier of
  the tracked planes.
\<close>

definition fresh_plane_id :: "Plane list \<Rightarrow> nat" where
  "fresh_plane_id planes = fold max (map (\<lambda>plane. Suc (plane_id plane)) planes) 0"

text \<open>
  Modelled from the spec: \<^verbatim>\<open>clusterPlanesFromMesh\<close> (body missing), one pass of the plane
  segmentation and association of section 4.3 over the mesh (the member \<^verbatim>\<open>mesh_3d_\<close>, here
  the argument \<open>mesh_3d\<close>) and the tracked planes. The candidates are segmented from the
  mesh (steps 1 to 3) with fresh identifiers and associated with the tracked planes (step
  4): the tracked planes all stay, in their order, and the candidates that match none of
  them become new planes after them. Then every tracked plane accumulates the landmark
  ids of the polygons of the mesh that are on it (step 5).
\<close>

definition clusterPlanesFromMesh ::
  "PlaneSegmentation \<Rightarrow> Mesh3D \<Rightarrow> Plane list \<Rightarrow> PointsWithIdMap \<Rightarrow> Plane list" where
  "clusterPlanesFromMesh s mesh_3d planes points_with_id_vio =
     (let new_planes =
            segmentNewPlanes s (fresh_plane_id planes) (z_components s mesh_3d) (walls s mesh_3d);
          new_non_associated_planes =
            associatePlanes s new_planes planes (normal_tolerance_plane_plane_association s)
              (distance_tolerance_plane_plane_association s)
      in updatePlanesLmkIdsFromMesh (calculateNormal s) (isNormalAroundAxis s)
           (use_extra_lmks_from_stereo s) (associate_a_polygon_to_a_single_plane s) mesh_3d
           (planes @ new_non_associated_planes)
           (normal_tolerance_polygon_plane_association s)
           (distance_tolerance_polygon_plane_association s) points_with_id_vio)"

text \<open>The normal and the distance of a plane: what the match of two planes looks at.\<close>

definition geometry :: "Plane \<Rightarrow> Point3 \<times> real" where
  "geometry plane = (normal plane, plane_distance plane)"

subsection \<open>Example meshes and planes\<close>

definition example_vertex :: "LandmarkId \<Rightarrow> Point3 \<Rightarrow> Vertex" where
  "example_vertex lmk_id point = \<lparr>getLmkId = lmk_id, getVertexPosition = point\<rparr>"

text \<open>A right triangle with sides 3, 4, 5 in the plane \<open>z = 0\<close>, on landmarks 1, 2, 3.\<close>

definition example_triangle :: Polygon where
  "example_triangle =
     (example_vertex 1 (0, 0, 0), example_vertex 2 (3, 0, 0), example_vertex 3 (0, 4, 0))"

text \<open>A sliver with sides 1, 10, 9 on landmarks 4, 5, 6.\<close>

definition example_sliver :: Polygon where
  "example_sliver =
     (example_vertex 4 (0, 0, 0), example_vertex 5 (1, 0, 0), example_vertex 6 (10, 0, 0))"

text \<open>The frame of the examples: three keypoints, tracked as the landmarks 1, 2, 3.\<close>

definition example_keypoints :: KeypointsCV where
  "example_keypoints = [(10, 10), (20, 10), (10, 20)]"

definition example_landmarks :: LandmarkIds where
  "example_landmarks = [1, 2, 3]"

definition example_mesh_2d :: "Vec6f list" where
  "example_mesh_2d = [((10, 10), (20, 10), (10, 20))]"

definition example_points :: PointsWithIdMap where
  "example_points = [1 \<mapsto> (0, 0, 0), 2 \<mapsto> (3, 0, 0), 3 \<mapsto> (0, 4, 0)]"

text \<open>The ground plane \<open>z = 0\<close>, with no landmarks yet.\<close>

definition example_plane :: Plane where
  "example_plane =
     \<lparr>plane_id = 0, orientation = Horizontal, normal = (0, 0, 1), plane_distance = 0,
      lmk_ids = []\<rparr>"

text \<open>
  Stand-ins for the three parameters in the examples: a view-angle ratio that is always 1,
  a normal that is always \<open>(0, 0, 1)\<close>, and normals that count as aligned when equal.
\<close>

definition example_tangential_radial :: "nat \<Rightarrow> Point3 \<Rightarrow> Point3 \<Rightarrow> Point3 \<Rightarrow> real" where
  "example_tangential_radial pose p1 p2 p3 = 1"

definition example_calculate_normal :: "Point3 \<Rightarrow> Point3 \<Rightarrow> Point3 \<Rightarrow> Point3 option" where
  "example_calculate_normal p1 p2 p3 = Some (0, 0, 1)"

definition example_normal_around_axis :: "Point3 \<Rightarrow> Point3 \<Rightarrow> real \<Rightarrow> bool" where
  "example_normal_around_axis axis triangle_normal tolerance = (axis = triangle_normal)"

text \<open>A tracked horizontal plane at height 5, with no landmarks.\<close>

definition example_shelf :: Plane where
  "example_shelf =
     \<lparr>plane_id = 0, orientation = Horizontal, normal = (0, 0, 1), plane_distance = 5,
      lmk_ids = []\<rparr>"

text \<open>
  Stand-ins for the segmentation in the examples: the normal and the normal test of
  above, no polygon counts as a wall, and every distinct sample of a histogram is a peak.
\<close>

definition example_segmentation :: PlaneSegmentation where
  "example_segmentation =
     \<lparr>calculateNormal = example_calculate_normal,
      isNormalAroundAxis = example_normal_around_axis,
      isNormalPerpendicularToAxis = (\<lambda>axis triangle_normal tolerance. False),
      getLongitude = (\<lambda>triangle_normal axis. 0),
      histogram_peaks_1d = remdups,
      histogram_peaks_2d = remdups,
      normal_tolerance_polygon_plane_association = 1 / 10,
      distance_tolerance_polygon_plane_association = 1 / 10,
      normal_tolerance_horizontal_surface = 1 / 10,
      normal_tolerance_walls = 1 / 10,
      normal_tolerance_plane_plane_association = 1 / 10,
      distance_tolerance_plane_plane_association = 1 / 10,
      use_extra_lmks_from_stereo = False,
      associate_a_polygon_to_a_single_plane = True\<rparr>"

section \<open>Properties of MesherModule\<close>

declare frontend_loop.simps [simp del]

subsection \<open>The sentinel value of the loop\<close>

lemma sint_Timestamp_max: "sint Timestamp_max = 2 ^ 63 - 1"
  by (simp add: Timestamp_max_def)

lemma less_Timestamp_max_iff:
  "sint (t :: Timestamp) < sint Timestamp_max \<longleftrightarrow> t \<noteq> Timestamp_max"
proof
  assume "sint t < sint Timestamp_max"
  then show "t \<noteq> Timestamp_max" by auto
next
  assume ne: "t \<noteq> Timestamp_max"
  have "sint t < 2 ^ (LENGTH(64) - 1)" by (rule sint_lt)
  then have le: "sint t \<le> sint Timestamp_max" by (simp add: sint_Timestamp_max)
  have "sint t \<noteq> sint Timestamp_max" using ne by (auto dest: signed_word_eqI)
  with le show "sint t < sint Timestamp_max" by simp
qed

subsection \<open>The queue\<close>

lemma pop_Cons:
  "\<not> shutdown_flag q \<Longrightarrow> data_queue q = e # es \<Longrightarrow> pop q = Some (e, q\<lparr>data_queue := es\<rparr>)"
  by (simp add: pop_def)

lemma pop_None_iff: "pop q = None \<longleftrightarrow> shutdown_flag q \<or> data_queue q = []"
  by (simp add: pop_def split: list.splits)

lemma hasWork_iff: "hasWork m \<longleftrightarrow> data_queue (backend_payload_queue m) = []"
  by (simp add: hasWork_def empty_queue_def)

subsection \<open>One iteration of the loop\<close>

lemma loop_guard_false:
  "frontend_loop name t t fp q lg = (LoopExit fp, q, lg)"
  by (subst frontend_loop.simps) simp

lemma loop_pop_failed:
  "t \<noteq> pt \<Longrightarrow> pop q = None \<Longrightarrow>
   frontend_loop name t pt fp q lg =
     (LoopReturnsNull, q, lg @ [frontend_queue_empty_or_shutdown name])"
  by (subst frontend_loop.simps) simp

lemma loop_popped_null:
  "t \<noteq> pt \<Longrightarrow> pop q = Some (None, q') \<Longrightarrow>
   frontend_loop name t pt fp q lg =
   frontend_loop name t pt None q' (lg @ [missing_frontend_payload name])"
  by (subst frontend_loop.simps) simp

lemma loop_popped_payload:
  "t \<noteq> pt \<Longrightarrow> pop q = Some (Some p, q') \<Longrightarrow>
   frontend_loop name t pt fp q lg =
   frontend_loop name t (getTimestamp (stereo_frame_lkf p)) (Some p) q' lg"
  by (subst frontend_loop.simps) simp

lemma missing_payload_warnings_simps:
  "missing_payload_warnings name [] = []"
  "missing_payload_warnings name (None # es) =
     missing_frontend_payload name # missing_payload_warnings name es"
  "missing_payload_warnings name (Some p # es) = missing_payload_warnings name es"
  by (simp_all add: missing_payload_warnings_def)

subsection \<open>The whole loop\<close>

text \<open>On a queue that is shut down the first pop fails.\<close>

lemma loop_shutdown:
  "shutdown_flag q \<Longrightarrow> t \<noteq> pt \<Longrightarrow>
   frontend_loop name t pt fp q lg =
     (LoopReturnsNull, q, lg @ [frontend_queue_empty_or_shutdown name])"
  by (simp add: loop_pop_failed pop_None_iff)

text \<open>Without a matching entry the loop drains the queue and returns null.\<close>

lemma loop_nomatch:
  "\<not> shutdown_flag q \<Longrightarrow> t \<noteq> pt \<Longrightarrow> \<forall>e\<in>set (data_queue q). \<not> has_timestamp t e \<Longrightarrow>
   frontend_loop name t pt fp q lg =
     (LoopReturnsNull, q\<lparr>data_queue := []\<rparr>,
      lg @ missing_payload_warnings name (data_queue q) @ [frontend_queue_empty_or_shutdown name])"
proof (induction "data_queue q" arbitrary: q pt fp lg)
  case Nil
  then have "pop q = None" by (simp add: pop_None_iff)
  with Nil show ?case
    by (simp add: loop_pop_failed missing_payload_warnings_simps)
next
  case (Cons e es)
  let ?q' = "q\<lparr>data_queue := es\<rparr>"
  have q: "data_queue q = e # es" using Cons.hyps(2) by simp
  have pop: "pop q = Some (e, ?q')" using Cons.prems(1) q by (rule pop_Cons)
  have q': "es = data_queue ?q'" "\<not> shutdown_flag ?q'"
    "\<forall>e\<in>set (data_queue ?q'). \<not> has_timestamp t e"
    using Cons.prems q by simp_all
  show ?case
  proof (cases e)
    case None
    have "frontend_loop name t pt fp q lg =
          frontend_loop name t pt None ?q' (lg @ [missing_frontend_payload name])"
      using Cons.prems(2) pop None by (simp add: loop_popped_null)
    also have "\<dots> = (LoopReturnsNull, ?q'\<lparr>data_queue := []\<rparr>,
      (lg @ [missing_frontend_payload name]) @ missing_payload_warnings name (data_queue ?q') @
      [frontend_queue_empty_or_shutdown name])"
      by (rule Cons.hyps(1) [OF q'(1) q'(2) Cons.prems(2) q'(3)])
    finally show ?thesis using q None by (simp add: missing_payload_warnings_simps)
  next
    case (Some p)
    have ne: "t \<noteq> getTimestamp (stereo_frame_lkf p)"
      using Cons.prems(3) q Some by (auto simp: has_timestamp_def)
    have "frontend_loop name t pt fp q lg =
          frontend_loop name t (getTimestamp (stereo_frame_lkf p)) (Some p) ?q' lg"
      using Cons.prems(2) pop Some by (simp add: loop_popped_payload)
    also have "\<dots> = (LoopReturnsNull, ?q'\<lparr>data_queue := []\<rparr>,
      lg @ missing_payload_warnings name (data_queue ?q') @
      [frontend_queue_empty_or_shutdown name])"
      by (rule Cons.hyps(1) [OF q'(1) q'(2) ne q'(3)])
    finally show ?thesis using q Some by (simp add: missing_payload_warnings_simps)
  qed
qed

text \<open>With a matching entry the loop stops at the first one.\<close>

lemma loop_match:
  "\<not> shutdown_flag q \<Longrightarrow> t \<noteq> pt \<Longrightarrow> data_queue q = pre @ Some p # post \<Longrightarrow>
   \<forall>e\<in>set pre. \<not> has_timestamp t e \<Longrightarrow> getTimestamp (stereo_frame_lkf p) = t \<Longrightarrow>
   frontend_loop name t pt fp q lg =
     (LoopExit (Some p), q\<lparr>data_queue := post\<rparr>, lg @ missing_payload_warnings name pre)"
proof (induction pre arbitrary: q pt fp lg)
  case Nil
  have pop: "pop q = Some (Some p, q\<lparr>data_queue := post\<rparr>)"
    using Nil.prems(1,3) by (simp add: pop_Cons)
  have "frontend_loop name t pt fp q lg =
        frontend_loop name t t (Some p) (q\<lparr>data_queue := post\<rparr>) lg"
    using Nil.prems(2,5) pop by (simp add: loop_popped_payload)
  then show ?case by (simp add: loop_guard_false missing_payload_warnings_simps)
next
  case (Cons e es)
  let ?q' = "q\<lparr>data_queue := es @ Some p # post\<rparr>"
  have pop: "pop q = Some (e, ?q')" using Cons.prems(1,3) by (simp add: pop_Cons)
  have q': "\<not> shutdown_flag ?q'" "data_queue ?q' = es @ Some p # post"
    "\<forall>e\<in>set es. \<not> has_timestamp t e"
    using Cons.prems by simp_all
  show ?case
  proof (cases e)
    case None
    have "frontend_loop name t pt fp q lg =
          frontend_loop name t pt None ?q' (lg @ [missing_frontend_payload name])"
      using Cons.prems(2) pop None by (simp add: loop_popped_null)
    also have "\<dots> = (LoopExit (Some p), ?q'\<lparr>data_queue := post\<rparr>,
       (lg @ [missing_frontend_payload name]) @ missing_payload_warnings name es)"
      by (rule Cons.IH [OF q'(1) Cons.prems(2) q'(2) q'(3) Cons.prems(5)])
    finally show ?thesis using None by (simp add: missing_payload_warnings_simps)
  next
    case (Some p')
    have ne: "t \<noteq> getTimestamp (stereo_frame_lkf p')"
      using Cons.prems(4) Some by (auto simp: has_timestamp_def)
    have "frontend_loop name t pt fp q lg =
          frontend_loop name t (getTimestamp (stereo_frame_lkf p')) (Some p') ?q' lg"
      using Cons.prems(2) pop Some by (simp add: loop_popped_payload)
    also have "\<dots> = (LoopExit (Some p), ?q'\<lparr>data_queue := post\<rparr>,
       lg @ missing_payload_warnings name es)"
      by (rule Cons.IH [OF q'(1) ne q'(2) q'(3) Cons.prems(5)])
    finally show ?thesis using Some by (simp add: missing_payload_warnings_simps)
  qed
qed

text \<open>A queue that holds an entry with timestamp \<open>t\<close> splits at the first such entry.\<close>

lemma first_match:
  assumes "\<exists>e\<in>set es. has_timestamp t e"
  shows "\<exists>pre fp post. es = pre @ Some fp # post \<and> (\<forall>e\<in>set pre. \<not> has_timestamp t e) \<and>
           getTimestamp (stereo_frame_lkf fp) = t"
proof -
  from assms obtain pre x post where
    es: "es = pre @ x # post" and x: "has_timestamp t x"
    and pre: "\<forall>e\<in>set pre. \<not> has_timestamp t e"
    using split_list_first_prop [of es "has_timestamp t"] by blast
  from x obtain fp where "x = Some fp" "getTimestamp (stereo_frame_lkf fp) = t"
    by (cases x) (auto simp: has_timestamp_def)
  with es pre show ?thesis by blast
qed

lemma first_match_unique:
  "pre @ x # post = pre' @ x' # post' \<Longrightarrow> \<forall>e\<in>set pre. \<not> P e \<Longrightarrow> \<forall>e\<in>set pre'. \<not> P e \<Longrightarrow>
   P x \<Longrightarrow> P x' \<Longrightarrow> pre = pre' \<and> x = x' \<and> post = post'"
proof (induction pre arbitrary: pre')
  case Nil
  then show ?case by (cases pre') auto
next
  case (Cons a pre)
  then show ?case by (cases pre') auto
qed

text \<open>The three ways the loop ends when its guard holds at entry.\<close>

lemma loop_cases:
  assumes "t \<noteq> pt"
  shows "(\<exists>lg'. frontend_loop name t pt fp q lg =
            (LoopReturnsNull,
             if shutdown_flag q then q else q\<lparr>data_queue := []\<rparr>, lg') \<and>
            (shutdown_flag q \<or> (\<forall>e\<in>set (data_queue q). \<not> has_timestamp t e))) \<or>
         (\<exists>pre p post. \<not> shutdown_flag q \<and> data_queue q = pre @ Some p # post \<and>
            (\<forall>e\<in>set pre. \<not> has_timestamp t e) \<and> getTimestamp (stereo_frame_lkf p) = t \<and>
            frontend_loop name t pt fp q lg =
              (LoopExit (Some p), q\<lparr>data_queue := post\<rparr>,
               lg @ missing_payload_warnings name pre))"
proof (cases "shutdown_flag q")
  case True
  then show ?thesis using assms by (simp add: loop_shutdown)
next
  case False
  show ?thesis
  proof (cases "\<exists>e\<in>set (data_queue q). has_timestamp t e")
    case True
    from first_match [OF True] obtain pre p post where
      d: "data_queue q = pre @ Some p # post" "\<forall>e\<in>set pre. \<not> has_timestamp t e"
        "getTimestamp (stereo_frame_lkf p) = t"
      by blast
    from loop_match [OF False assms d] d False show ?thesis by blast
  next
    case no: False
    then have "\<forall>e\<in>set (data_queue q). \<not> has_timestamp t e" by blast
    from loop_nomatch [OF False assms this] this False show ?thesis by simp
  qed
qed

subsection \<open>getInputPacket after a successful back-end pop\<close>

lemma pop_backend:
  assumes "\<not> shutdown_flag (backend_payload_queue m)"
    and "data_queue (backend_payload_queue m) = Some bp # brest"
  shows "(if parallel_run m then popBlocking (backend_payload_queue m)
          else Returned (pop (backend_payload_queue m))) =
         Returned (Some (Some bp, (backend_payload_queue m)\<lparr>data_queue := brest\<rparr>))"
  using assms by (simp add: pop_def popBlocking_def)

lemma getInputPacket_popped:
  assumes "\<not> shutdown_flag (backend_payload_queue m)"
    and "data_queue (backend_payload_queue m) = Some bp # brest"
  shows "getInputPacket m =
     (case frontend_loop (name_id m) (nav_timestamp (W_State_Blkf bp)) Timestamp_max None
             (frontend_payload_queue m) [] of
        (LoopReturnsNull, fq', lg) \<Rightarrow>
          (Returns nullptr,
           m\<lparr>backend_payload_queue := (backend_payload_queue m)\<lparr>data_queue := brest\<rparr>,
             frontend_payload_queue := fq'\<rparr>, lg)
      | (LoopExit frontend_payload, fq', lg) \<Rightarrow>
          (case frontend_payload of
             None \<Rightarrow>
               (NullDereference,
                m\<lparr>backend_payload_queue := (backend_payload_queue m)\<lparr>data_queue := brest\<rparr>,
                  frontend_payload_queue := fq'\<rparr>, lg)
           | Some fp \<Rightarrow>
               (Returns (Packet (synced_packet Map.empty bp fp)),
                m\<lparr>backend_payload_queue := (backend_payload_queue m)\<lparr>data_queue := brest\<rparr>,
                  frontend_payload_queue := fq'\<rparr>, lg)))"
  unfolding getInputPacket_def pop_backend [OF assms]
  by (simp add: Let_def synced_packet_def split: prod.splits loop_exit.splits option.splits)

lemma getInputPacket_match:
  assumes "\<not> shutdown_flag (backend_payload_queue m)"
    and "data_queue (backend_payload_queue m) = Some bp # brest"
    and "nav_timestamp (W_State_Blkf bp) \<noteq> Timestamp_max"
    and "\<not> shutdown_flag (frontend_payload_queue m)"
    and "data_queue (frontend_payload_queue m) = pre @ Some fp # post"
    and "\<forall>e\<in>set pre. \<not> has_timestamp (nav_timestamp (W_State_Blkf bp)) e"
    and "getTimestamp (stereo_frame_lkf fp) = nav_timestamp (W_State_Blkf bp)"
  shows "getInputPacket m =
     (Returns (Packet (synced_packet Map.empty bp fp)),
      m\<lparr>backend_payload_queue := (backend_payload_queue m)\<lparr>data_queue := brest\<rparr>,
        frontend_payload_queue := (frontend_payload_queue m)\<lparr>data_queue := post\<rparr>\<rparr>,
      missing_payload_warnings (name_id m) pre)"
  unfolding getInputPacket_popped [OF assms(1,2)]
  by (simp add: loop_match [OF assms(4,3,5,6,7)])

lemma getInputPacket_nomatch:
  assumes "\<not> shutdown_flag (backend_payload_queue m)"
    and "data_queue (backend_payload_queue m) = Some bp # brest"
    and "nav_timestamp (W_State_Blkf bp) \<noteq> Timestamp_max"
    and "\<not> shutdown_flag (frontend_payload_queue m)"
    and "\<forall>e\<in>set (data_queue (frontend_payload_queue m)).
           \<not> has_timestamp (nav_timestamp (W_State_Blkf bp)) e"
  shows "getInputPacket m =
     (Returns nullptr,
      m\<lparr>backend_payload_queue := (backend_payload_queue m)\<lparr>data_queue := brest\<rparr>,
        frontend_payload_queue := (frontend_payload_queue m)\<lparr>data_queue := []\<rparr>\<rparr>,
      missing_payload_warnings (name_id m) (data_queue (frontend_payload_queue m)) @
      [frontend_queue_empty_or_shutdown (name_id m)])"
  unfolding getInputPacket_popped [OF assms(1,2)]
  by (simp add: loop_nomatch [OF assms(4,3,5)])

lemma getInputPacket_frontend_down:
  assumes "\<not> shutdown_flag (backend_payload_queue m)"
    and "data_queue (backend_payload_queue m) = Some bp # brest"
    and "nav_timestamp (W_State_Blkf bp) \<noteq> Timestamp_max"
    and "shutdown_flag (frontend_payload_queue m)"
  shows "getInputPacket m =
     (Returns nullptr,
      m\<lparr>backend_payload_queue := (backend_payload_queue m)\<lparr>data_queue := brest\<rparr>\<rparr>,
      [frontend_queue_empty_or_shutdown (name_id m)])"
  unfolding getInputPacket_popped [OF assms(1,2)]
  by (simp add: loop_shutdown [OF assms(4,3)])

lemma getInputPacket_sentinel:
  assumes "\<not> shutdown_flag (backend_payload_queue m)"
    and "data_queue (backend_payload_queue m) = Some bp # brest"
    and "nav_timestamp (W_State_Blkf bp) = Timestamp_max"
  shows "getInputPacket m =
     (NullDereference,
      m\<lparr>backend_payload_queue := (backend_payload_queue m)\<lparr>data_queue := brest\<rparr>\<rparr>, [])"
  unfolding getInputPacket_popped [OF assms(1,2)]
  by (simp add: assms(3) loop_guard_false)

subsection \<open>The example modules\<close>

lemma example_module_eq:
  "example_module parallel bs fs =
     \<lparr>name_id = ''Mesher'', parallel_run = parallel,
      frontend_payload_queue =
        \<lparr>data_queue = map (Some \<circ> example_frontend) fs, shutdown_flag = False\<rparr>,
      backend_payload_queue =
        \<lparr>data_queue = map (Some \<circ> example_backend) bs, shutdown_flag = False\<rparr>,
      mesher = 0\<rparr>"
proof -
  have b: "fold fillBackendQueue xs m =
      m\<lparr>backend_payload_queue :=
          (backend_payload_queue m)\<lparr>data_queue := data_queue (backend_payload_queue m) @ xs\<rparr>\<rparr>"
    if "\<not> shutdown_flag (backend_payload_queue m)"
    for xs :: "nat MesherBackendInput list" and m :: "(nat, nat, nat) MesherModule"
    using that by (induction xs arbitrary: m) (simp_all add: fillBackendQueue_def push_def)
  have f: "fold fillFrontendQueue xs m =
      m\<lparr>frontend_payload_queue :=
          (frontend_payload_queue m)\<lparr>data_queue := data_queue (frontend_payload_queue m) @ xs\<rparr>\<rparr>"
    if "\<not> shutdown_flag (frontend_payload_queue m)"
    for xs :: "nat MesherFrontendInput list" and m :: "(nat, nat, nat) MesherModule"
    using that by (induction xs arbitrary: m) (simp_all add: fillFrontendQueue_def push_def)
  show ?thesis
    by (simp add: example_module_def MesherModule_new_def b f)
qed

lemma has_timestamp_example [simp]:
  "has_timestamp t (Some (example_frontend u)) \<longleftrightarrow> u = t"
  by (simp add: has_timestamp_def example_frontend_def)

lemma example_backend_timestamp [simp]:
  "nav_timestamp (W_State_Blkf (example_backend t)) = t"
  by (simp add: example_backend_def)

lemma example_frontend_timestamp [simp]:
  "getTimestamp (stereo_frame_lkf (example_frontend t)) = t"
  by (simp add: example_frontend_def)

lemma example_frontend_inject [simp]:
  "example_frontend t = example_frontend u \<longleftrightarrow> t = u"
  by (auto simp: example_frontend_def)

subsection \<open>hasWork\<close>

text \<open>
  Claim C1: \<^verbatim>\<open>hasWork\<close> reports outstanding work exactly when the back-end queue holds
  at least one payload. The function returns \<^verbatim>\<open>backend_payload_queue_.empty()\<close>
  (\<open>hasWork_iff\<close>), the opposite: after one back-end payload with timestamp 5 has been
  pushed it returns false, and with an empty back-end queue it returns true.
\<close>

theorem hasWork_false_on_pending_backend_payload:
  "hasWork (example_module False [5] [5]) = False \<and> hasWork (example_module False [] [5]) = True"
  by (simp add: hasWork_iff example_module_eq)

subsection \<open>The synchronized packet\<close>

text \<open>
  Claim C2: on a match the packet carries the timestamp, the back end's optimized landmark
  map and pose, and the front end's keypoints, statuses, 3D estimates and landmark ids.
  The call passes a default-constructed \<^verbatim>\<open>PointsWithIdMap()\<close> for the landmark map: with
  the back-end payload of timestamp 5 and the front-end queue 3, 4, 5, 6 the packet has the
  front end's landmark 7 with its 3D estimate and the back end's pose, and an empty
  landmark map.
\<close>

theorem getInputPacket_passes_empty_landmark_map:
  "fst (getInputPacket (example_module False [5] [3, 4, 5, 6])) =
     Returns (Packet
       \<lparr>in_timestamp = 5, in_points_with_id_vio = Map.empty, in_keypoints = [(1, 2)],
        in_keypoints_status = [0], in_keypoints_3d = [(0, 0, 1)], in_landmarks = [7],
        W_Pose_B = 42\<rparr>)"
proof -
  let ?m = "example_module False [5] [3, 4, 5, 6]"
  have "getInputPacket ?m =
     (Returns (Packet (synced_packet Map.empty (example_backend 5) (example_frontend 5))),
      ?m\<lparr>backend_payload_queue := (backend_payload_queue ?m)\<lparr>data_queue := []\<rparr>,
         frontend_payload_queue :=
           (frontend_payload_queue ?m)\<lparr>data_queue := [Some (example_frontend 6)]\<rparr>\<rparr>,
      missing_payload_warnings (name_id ?m)
        [Some (example_frontend 3), Some (example_frontend 4)])"
    by (rule getInputPacket_match) (simp_all add: example_module_eq Timestamp_max_def)
  then show ?thesis
    by (simp add: synced_packet_def example_backend_def example_frontend_def)
qed

subsection \<open>Discarding up to the match\<close>

text \<open>
  Claim C3, as stated, for every back-end timestamp \<open>T\<close> and every front-end queue that
  holds an entry with timestamp \<open>T\<close>: the front-end entries before the first one with
  timestamp \<open>T\<close> are popped and dropped, that one is paired, the later ones stay. It
  fails for \<open>T\<close> the largest timestamp, the initial value of \<^verbatim>\<open>payload_timestamp\<close>: the
  loop is not entered, the matching front-end entry stays in the queue and the null
  \<^verbatim>\<open>frontend_payload\<close> is dereferenced. It also fails for a front-end queue that has
  been shut down after the back-end payload was pushed: the first pop fails, the call
  returns null and the matching entry stays in the queue.
\<close>

theorem getInputPacket_match_not_paired:
  "has_timestamp Timestamp_max (Some (example_frontend Timestamp_max)) \<and>
   fst (getInputPacket (example_module False [Timestamp_max] [Timestamp_max])) = NullDereference \<and>
   data_queue (frontend_payload_queue
     (fst (snd (getInputPacket (example_module False [Timestamp_max] [Timestamp_max]))))) =
     [Some (example_frontend Timestamp_max)] \<and>
   has_timestamp 5 (Some (example_frontend 5)) \<and>
   fst (getInputPacket
     ((example_module False [5] [5])
        \<lparr>frontend_payload_queue :=
           shutdown (frontend_payload_queue (example_module False [5] [5]))\<rparr>)) =
     Returns nullptr \<and>
   data_queue (frontend_payload_queue
     (fst (snd (getInputPacket
        ((example_module False [5] [5])
           \<lparr>frontend_payload_queue :=
              shutdown (frontend_payload_queue (example_module False [5] [5]))\<rparr>))))) =
     [Some (example_frontend 5)]"
proof -
  let ?m = "example_module False [Timestamp_max] [Timestamp_max]"
  let ?d = "(example_module False [5] [5])
              \<lparr>frontend_payload_queue :=
                 shutdown (frontend_payload_queue (example_module False [5] [5]))\<rparr>"
  have "getInputPacket ?m =
     (NullDereference,
      ?m\<lparr>backend_payload_queue := (backend_payload_queue ?m)\<lparr>data_queue := []\<rparr>\<rparr>, [])"
    by (rule getInputPacket_sentinel [where bp = "example_backend Timestamp_max"])
       (simp_all add: example_module_eq)
  moreover have "getInputPacket ?d =
     (Returns nullptr,
      ?d\<lparr>backend_payload_queue := (backend_payload_queue ?d)\<lparr>data_queue := []\<rparr>\<rparr>,
      [frontend_queue_empty_or_shutdown (name_id ?d)])"
    by (rule getInputPacket_frontend_down [where bp = "example_backend 5"])
       (simp_all add: example_module_eq shutdown_def Timestamp_max_def)
  ultimately show ?thesis
    by (simp add: example_module_eq shutdown_def)
qed

text \<open>
  Claim C3, amended: for every back-end payload with a timestamp \<open>T\<close> other than the
  largest one, and every front-end queue (not shut down) in non-decreasing timestamp order
  that holds an entry with timestamp \<open>T\<close>, the queue splits as \<open>pre @ Some fp # post\<close>
  where no entry of \<open>pre\<close> has timestamp \<open>T\<close> and \<open>fp\<close> has; the call pops \<open>pre\<close>
  and \<open>fp\<close>, returns the packet made of the back-end payload and \<open>fp\<close>, and leaves
  exactly \<open>post\<close> in the queue. The module keeps the popped entries nowhere: the state
  after the call is the state before with the two queues shortened. The null entries of
  \<open>pre\<close> are logged.
\<close>

theorem getInputPacket_discards_until_match:
  assumes "\<not> shutdown_flag (backend_payload_queue m)"
    and "data_queue (backend_payload_queue m) = Some bp # brest"
    and "nav_timestamp (W_State_Blkf bp) = T"
    and "T \<noteq> Timestamp_max"
    and "\<not> shutdown_flag (frontend_payload_queue m)"
    and "sorted_wrt word_sle (frontend_timestamps (data_queue (frontend_payload_queue m)))"
    and "\<exists>e\<in>set (data_queue (frontend_payload_queue m)). has_timestamp T e"
  shows "\<exists>pre fp post.
           data_queue (frontend_payload_queue m) = pre @ Some fp # post \<and>
           (\<forall>e\<in>set pre. \<not> has_timestamp T e) \<and>
           getTimestamp (stereo_frame_lkf fp) = T \<and>
           getInputPacket m =
             (Returns (Packet (synced_packet Map.empty bp fp)),
              m\<lparr>backend_payload_queue := (backend_payload_queue m)\<lparr>data_queue := brest\<rparr>,
                frontend_payload_queue := (frontend_payload_queue m)\<lparr>data_queue := post\<rparr>\<rparr>,
              missing_payload_warnings (name_id m) pre)"
proof -
  from first_match [OF assms(7)] obtain pre fp post where
    d: "data_queue (frontend_payload_queue m) = pre @ Some fp # post"
    and pre: "\<forall>e\<in>set pre. \<not> has_timestamp T e"
    and fp: "getTimestamp (stereo_frame_lkf fp) = T"
    by blast
  have "getInputPacket m =
             (Returns (Packet (synced_packet Map.empty bp fp)),
              m\<lparr>backend_payload_queue := (backend_payload_queue m)\<lparr>data_queue := brest\<rparr>,
                frontend_payload_queue := (frontend_payload_queue m)\<lparr>data_queue := post\<rparr>\<rparr>,
              missing_payload_warnings (name_id m) pre)"
    using assms(3,4) pre fp
    by (intro getInputPacket_match [OF assms(1,2) _ assms(5) d]) simp_all
  with d pre fp show ?thesis by blast
qed

text \<open>The spec's example: \<open>T = 5\<close> and the front-end queue 3, 4, 5, 6 leave 6 behind.\<close>

theorem getInputPacket_discards_until_match_witness:
  "getInputPacket (example_module False [5] [3, 4, 5, 6]) =
     (Returns (Packet (synced_packet Map.empty (example_backend 5) (example_frontend 5))),
      example_module False [] [6], [])"
proof -
  let ?m = "example_module False [5] [3, 4, 5, 6]"
  have "\<exists>pre fp post.
           data_queue (frontend_payload_queue ?m) = pre @ Some fp # post \<and>
           (\<forall>e\<in>set pre. \<not> has_timestamp 5 e) \<and>
           getTimestamp (stereo_frame_lkf fp) = 5 \<and>
           getInputPacket ?m =
             (Returns (Packet (synced_packet Map.empty (example_backend 5) fp)),
              ?m\<lparr>backend_payload_queue := (backend_payload_queue ?m)\<lparr>data_queue := []\<rparr>,
                frontend_payload_queue := (frontend_payload_queue ?m)\<lparr>data_queue := post\<rparr>\<rparr>,
              missing_payload_warnings (name_id ?m) pre)"
    by (rule getInputPacket_discards_until_match [where T = 5 and bp = "example_backend 5"])
       (simp_all add: example_module_eq Timestamp_max_def)
  then obtain pre fp post where
    d: "data_queue (frontend_payload_queue ?m) = pre @ Some fp # post"
    and pre: "\<forall>e\<in>set pre. \<not> has_timestamp 5 e"
    and fp: "getTimestamp (stereo_frame_lkf fp) = 5"
    and g: "getInputPacket ?m =
             (Returns (Packet (synced_packet Map.empty (example_backend 5) fp)),
              ?m\<lparr>backend_payload_queue := (backend_payload_queue ?m)\<lparr>data_queue := []\<rparr>,
                frontend_payload_queue := (frontend_payload_queue ?m)\<lparr>data_queue := post\<rparr>\<rparr>,
              missing_payload_warnings (name_id ?m) pre)"
    by blast
  have q: "[Some (example_frontend 3), Some (example_frontend 4)] @ Some (example_frontend 5) #
           [Some (example_frontend 6)] = pre @ Some fp # post"
    using d by (simp add: example_module_eq)
  have "[Some (example_frontend 3), Some (example_frontend 4)] = pre \<and>
        Some (example_frontend 5) = Some fp \<and> [Some (example_frontend 6)] = post"
    using pre fp
    by (intro first_match_unique [OF q, where P = "has_timestamp 5"])
       (simp_all add: has_timestamp_def)
  then have "pre = [Some (example_frontend 3), Some (example_frontend 4)]"
    "fp = example_frontend 5" "post = [Some (example_frontend 6)]"
    by auto
  with g show ?thesis
    by (simp add: example_module_eq missing_payload_warnings_simps)
qed

subsection \<open>No match\<close>

text \<open>
  For a back-end payload with a timestamp \<open>T\<close> other than the largest one, if the
  front-end queue is shut down or holds no entry with timestamp \<open>T\<close>, the call returns
  null, the last entry it logs is the error about the front-end queue, the mesher (the mesh
  and plane state) is the one before the call, and a front-end queue that is not shut down
  is left empty.
\<close>

lemma getInputPacket_fails_without_match:
  assumes "\<not> shutdown_flag (backend_payload_queue m)"
    and "data_queue (backend_payload_queue m) = Some bp # brest"
    and "nav_timestamp (W_State_Blkf bp) = T"
    and "T \<noteq> Timestamp_max"
    and "shutdown_flag (frontend_payload_queue m) \<or>
         (\<forall>e\<in>set (data_queue (frontend_payload_queue m)). \<not> has_timestamp T e)"
  shows "getInputPacket m =
           (Returns nullptr,
            m\<lparr>backend_payload_queue := (backend_payload_queue m)\<lparr>data_queue := brest\<rparr>,
              frontend_payload_queue :=
                (if shutdown_flag (frontend_payload_queue m) then frontend_payload_queue m
                 else (frontend_payload_queue m)\<lparr>data_queue := []\<rparr>)\<rparr>,
            (if shutdown_flag (frontend_payload_queue m) then []
             else missing_payload_warnings (name_id m) (data_queue (frontend_payload_queue m))) @
            [frontend_queue_empty_or_shutdown (name_id m)]) \<and>
         mesher (fst (snd (getInputPacket m))) = mesher m"
proof (cases "shutdown_flag (frontend_payload_queue m)")
  case True
  have "getInputPacket m =
     (Returns nullptr,
      m\<lparr>backend_payload_queue := (backend_payload_queue m)\<lparr>data_queue := brest\<rparr>\<rparr>,
      [frontend_queue_empty_or_shutdown (name_id m)])"
    using assms(3,4) by (intro getInputPacket_frontend_down [OF assms(1,2) _ True]) simp
  with True show ?thesis by simp
next
  case False
  with assms(5) have "\<forall>e\<in>set (data_queue (frontend_payload_queue m)).
      \<not> has_timestamp (nav_timestamp (W_State_Blkf bp)) e"
    using assms(3) by simp
  moreover have "nav_timestamp (W_State_Blkf bp) \<noteq> Timestamp_max"
    using assms(3,4) by simp
  ultimately have "getInputPacket m =
     (Returns nullptr,
      m\<lparr>backend_payload_queue := (backend_payload_queue m)\<lparr>data_queue := brest\<rparr>,
        frontend_payload_queue := (frontend_payload_queue m)\<lparr>data_queue := []\<rparr>\<rparr>,
      missing_payload_warnings (name_id m) (data_queue (frontend_payload_queue m)) @
      [frontend_queue_empty_or_shutdown (name_id m)])"
    by (intro getInputPacket_nomatch [OF assms(1,2) _ False])
  with False show ?thesis by simp
qed

text \<open>The spec's example: \<open>T = 5\<close> and the front-end queue 3, 4.\<close>

lemma getInputPacket_fails_without_match_example:
  "getInputPacket (example_module False [5] [3, 4]) =
     (Returns nullptr, example_module False [] [],
      [frontend_queue_empty_or_shutdown ''Mesher'']) \<and>
   mesher (fst (snd (getInputPacket (example_module False [5] [3, 4])))) =
     mesher (example_module False [5] [3, 4])"
  using getInputPacket_fails_without_match
      [where m = "example_module False [5] [3, 4]" and bp = "example_backend 5"
         and brest = "[]" and T = 5]
  by (simp add: example_module_eq Timestamp_max_def missing_payload_warnings_simps)

text \<open>
  Claim C4: when the front-end queue empties before a front-end packet with the back-end
  timestamp \<open>T\<close> is found, the call logs an error and returns null. The code does so for
  every \<open>T\<close> but the largest timestamp, the initial value of \<^verbatim>\<open>payload_timestamp\<close>. For
  that \<open>T\<close>, in step mode with one back-end payload and an empty front-end queue, the
  loop is not entered: nothing is popped from the front-end queue, no error is logged, and
  the call dereferences the null \<^verbatim>\<open>frontend_payload\<close> instead of returning null.
\<close>

theorem getInputPacket_sentinel_timestamp_no_error:
  "getInputPacket (example_module False [Timestamp_max] []) =
     (NullDereference, example_module False [] [], [])"
proof -
  let ?m = "example_module False [Timestamp_max] []"
  have "getInputPacket ?m =
     (NullDereference,
      ?m\<lparr>backend_payload_queue := (backend_payload_queue ?m)\<lparr>data_queue := []\<rparr>\<rparr>, [])"
    by (rule getInputPacket_sentinel [where bp = "example_backend Timestamp_max"])
       (simp_all add: example_module_eq)
  then show ?thesis
    by (simp add: example_module_eq)
qed

subsection \<open>Failure of the back-end pop\<close>

text \<open>
  Claim C5, as stated: the call logs the two failure conditions of the back-end pop, queue
  empty and queue shut down, differently. In step mode both give the same single entry,
  the verbose message that the queue is "empty or down".
\<close>

theorem getInputPacket_step_mode_logs_empty_and_down_alike:
  "snd (snd (getInputPacket (example_module False [] []))) =
     [VLOG 1 ''Module: Mesher - Backend queue is empty or down''] \<and>
   snd (snd (getInputPacket (fst (shutdownQueues (example_module False [] []))))) =
     [VLOG 1 ''Module: Mesher - Backend queue is empty or down'']"
  by (simp add: getInputPacket_def example_module_eq shutdownQueues_def shutdown_def pop_def
      backend_queue_empty_or_down_def)

text \<open>
  Claim C5, amended: in parallel mode the pop of the back-end queue blocks: on an empty
  queue that is not shut down the call waits, and once the queue is shut down it returns
  null with the warning that the queue is down. In step mode the pop does not block: on an
  empty or shut-down queue the call returns null at once, with the same verbose message
  ("empty or down") for both conditions. The log entry depends on the run mode, not on
  the condition. In each case the module is unchanged.
\<close>

theorem getInputPacket_backend_pop_failure:
  "(parallel_run m \<and> \<not> shutdown_flag (backend_payload_queue m) \<and>
      data_queue (backend_payload_queue m) = [] \<longrightarrow>
      getInputPacket m = (Blocked, m, [])) \<and>
   (parallel_run m \<and> shutdown_flag (backend_payload_queue m) \<longrightarrow>
      getInputPacket m = (Returns nullptr, m, [backend_queue_down (name_id m)])) \<and>
   (\<not> parallel_run m \<and>
      (shutdown_flag (backend_payload_queue m) \<or> data_queue (backend_payload_queue m) = []) \<longrightarrow>
      getInputPacket m = (Returns nullptr, m, [backend_queue_empty_or_down (name_id m)]))"
  by (auto simp: getInputPacket_def pop_def popBlocking_def split: list.splits)

theorem getInputPacket_backend_pop_failure_witness:
  "getInputPacket (example_module True [] [3]) = (Blocked, example_module True [] [3], []) \<and>
   getInputPacket (fst (shutdownQueues (example_module True [5] [5]))) =
     (Returns nullptr, fst (shutdownQueues (example_module True [5] [5])),
      [LOG WARNING ''Module: Mesher - Backend queue is down'']) \<and>
   getInputPacket (example_module False [] [3]) =
     (Returns nullptr, example_module False [] [3],
      [VLOG 1 ''Module: Mesher - Backend queue is empty or down'']) \<and>
   getInputPacket (fst (shutdownQueues (example_module False [5] [5]))) =
     (Returns nullptr, fst (shutdownQueues (example_module False [5] [5])),
      [VLOG 1 ''Module: Mesher - Backend queue is empty or down''])"
  using getInputPacket_backend_pop_failure [of "example_module True [] [3]"]
    getInputPacket_backend_pop_failure [of "fst (shutdownQueues (example_module True [5] [5]))"]
    getInputPacket_backend_pop_failure [of "example_module False [] [3]"]
    getInputPacket_backend_pop_failure [of "fst (shutdownQueues (example_module False [5] [5]))"]
  by (simp add: example_module_eq shutdownQueues_def shutdown_def backend_queue_down_def
      backend_queue_empty_or_down_def)

subsection \<open>The loop guard and the dereference\<close>

text \<open>
  Claim C9: after a successful back-end pop with timestamp \<open>T\<close>, if \<open>T\<close> is strictly less
  than the largest timestamp then the loop runs its body at least once (it starts with a
  pop of the front-end queue), the call never dereferences a null front-end payload, and
  a packet it returns is built from an entry \<open>fp\<close> that the loop popped from the
  front-end queue and that has timestamp \<open>T\<close>; if \<open>T\<close> is the largest timestamp the
  guard is false at entry, the loop is skipped (nothing is popped from the front-end
  queue, nothing is logged) and the null \<^verbatim>\<open>frontend_payload\<close> is dereferenced.
\<close>

theorem getInputPacket_loop_runs_before_dereference:
  assumes "\<not> shutdown_flag (backend_payload_queue m)"
    and "data_queue (backend_payload_queue m) = Some bp # brest"
    and "nav_timestamp (W_State_Blkf bp) = T"
  shows "(sint T < sint Timestamp_max \<longrightarrow>
            frontend_loop (name_id m) T Timestamp_max None (frontend_payload_queue m) [] =
              (case pop (frontend_payload_queue m) of
                 None \<Rightarrow>
                   (LoopReturnsNull, frontend_payload_queue m,
                    [frontend_queue_empty_or_shutdown (name_id m)])
               | Some (None, q') \<Rightarrow>
                   frontend_loop (name_id m) T Timestamp_max None q'
                     [missing_frontend_payload (name_id m)]
               | Some (Some p, q') \<Rightarrow>
                   frontend_loop (name_id m) T (getTimestamp (stereo_frame_lkf p)) (Some p) q' []) \<and>
            fst (getInputPacket m) \<noteq> NullDereference \<and>
            (\<forall>inp. fst (getInputPacket m) = Returns (Packet inp) \<longrightarrow>
               (\<exists>pre fp post.
                  data_queue (frontend_payload_queue m) = pre @ Some fp # post \<and>
                  getTimestamp (stereo_frame_lkf fp) = T \<and>
                  inp = synced_packet Map.empty bp fp \<and>
                  data_queue (frontend_payload_queue (fst (snd (getInputPacket m)))) = post))) \<and>
         (T = Timestamp_max \<longrightarrow>
            frontend_loop (name_id m) T Timestamp_max None (frontend_payload_queue m) [] =
              (LoopExit None, frontend_payload_queue m, []) \<and>
            getInputPacket m =
              (NullDereference,
               m\<lparr>backend_payload_queue := (backend_payload_queue m)\<lparr>data_queue := brest\<rparr>\<rparr>, []))"
proof (intro conjI impI)
  assume "T = Timestamp_max"
  then show "frontend_loop (name_id m) T Timestamp_max None (frontend_payload_queue m) [] =
      (LoopExit None, frontend_payload_queue m, [])"
    by (simp add: loop_guard_false)
next
  assume "T = Timestamp_max"
  with assms(3) show "getInputPacket m =
      (NullDereference,
       m\<lparr>backend_payload_queue := (backend_payload_queue m)\<lparr>data_queue := brest\<rparr>\<rparr>, [])"
    by (intro getInputPacket_sentinel [OF assms(1,2)]) simp
next
  assume "sint T < sint Timestamp_max"
  then have "T \<noteq> Timestamp_max" by (simp add: less_Timestamp_max_iff)
  then show "frontend_loop (name_id m) T Timestamp_max None (frontend_payload_queue m) [] =
      (case pop (frontend_payload_queue m) of
         None \<Rightarrow>
           (LoopReturnsNull, frontend_payload_queue m,
            [frontend_queue_empty_or_shutdown (name_id m)])
       | Some (None, q') \<Rightarrow>
           frontend_loop (name_id m) T Timestamp_max None q'
             [missing_frontend_payload (name_id m)]
       | Some (Some p, q') \<Rightarrow>
           frontend_loop (name_id m) T (getTimestamp (stereo_frame_lkf p)) (Some p) q' [])"
    by (subst frontend_loop.simps) (simp split: option.splits prod.splits)
next
  assume "sint T < sint Timestamp_max"
  then have ne: "nav_timestamp (W_State_Blkf bp) \<noteq> Timestamp_max"
    using assms(3) by (simp add: less_Timestamp_max_iff)
  let ?loop = "frontend_loop (name_id m) (nav_timestamp (W_State_Blkf bp)) Timestamp_max None
                 (frontend_payload_queue m) []"
  from loop_cases [OF ne, of "name_id m" None "frontend_payload_queue m" "[]"]
  consider (null) q' lg' where "?loop = (LoopReturnsNull, q', lg')"
    | (exit) pre p post where "data_queue (frontend_payload_queue m) = pre @ Some p # post"
        "getTimestamp (stereo_frame_lkf p) = nav_timestamp (W_State_Blkf bp)"
        "?loop = (LoopExit (Some p), (frontend_payload_queue m)\<lparr>data_queue := post\<rparr>,
                  missing_payload_warnings (name_id m) pre)"
    by auto
  then have "fst (getInputPacket m) \<noteq> NullDereference \<and>
            (\<forall>inp. fst (getInputPacket m) = Returns (Packet inp) \<longrightarrow>
               (\<exists>pre fp post.
                  data_queue (frontend_payload_queue m) = pre @ Some fp # post \<and>
                  getTimestamp (stereo_frame_lkf fp) = T \<and>
                  inp = synced_packet Map.empty bp fp \<and>
                  data_queue (frontend_payload_queue (fst (snd (getInputPacket m)))) = post))"
  proof cases
    case null
    then show ?thesis
      by (simp add: getInputPacket_popped [OF assms(1,2)])
  next
    case exit
    then show ?thesis
      using assms(3) by (auto simp: getInputPacket_popped [OF assms(1,2)])
  qed
  then show "fst (getInputPacket m) \<noteq> NullDereference"
    and "\<forall>inp. fst (getInputPacket m) = Returns (Packet inp) \<longrightarrow>
               (\<exists>pre fp post.
                  data_queue (frontend_payload_queue m) = pre @ Some fp # post \<and>
                  getTimestamp (stereo_frame_lkf fp) = T \<and>
                  inp = synced_packet Map.empty bp fp \<and>
                  data_queue (frontend_payload_queue (fst (snd (getInputPacket m)))) = post)"
    by blast+
qed

theorem getInputPacket_loop_runs_before_dereference_witness:
  "fst (getInputPacket (example_module False [5] [3, 4, 5, 6])) \<noteq> NullDereference \<and>
   getInputPacket (example_module False [Timestamp_max] [Timestamp_max]) =
     (NullDereference, example_module False [] [Timestamp_max], [])"
  using getInputPacket_loop_runs_before_dereference
      [of "example_module False [5] [3, 4, 5, 6]" "example_backend 5" "[]" 5]
    getInputPacket_loop_runs_before_dereference
      [of "example_module False [Timestamp_max] [Timestamp_max]" "example_backend Timestamp_max"
          "[]" Timestamp_max]
  by (simp add: example_module_eq sint_Timestamp_max)

subsection \<open>Null entries of the front-end queue\<close>

text \<open>When the loop returns null, a pop on the queue it leaves fails.\<close>

lemma loop_returns_null_pop_fails:
  assumes "frontend_loop name t pt fp q lg = (LoopReturnsNull, q', lg')"
  shows "pop q' = None"
proof (cases "t = pt")
  case True
  with assms show ?thesis by (simp add: loop_guard_false)
next
  case False
  from loop_cases [OF False, of name fp q lg] assms show ?thesis
    by (auto simp: pop_None_iff split: if_splits)
qed

text \<open>The outcome of the loop does not depend on the null entries of the queue.\<close>

lemma loop_outcome_without_nulls:
  "fst (frontend_loop name t pt fp q lg) =
   fst (frontend_loop name t pt fp
          (q\<lparr>data_queue := filter (\<lambda>e. e \<noteq> None) (data_queue q)\<rparr>) lg)"
proof -
  let ?q = "q\<lparr>data_queue := filter (\<lambda>e. e \<noteq> None) (data_queue q)\<rparr>"
  show ?thesis
  proof (cases "t = pt")
    case True
    then show ?thesis by (simp add: loop_guard_false)
  next
    case ne: False
    show ?thesis
    proof (cases "shutdown_flag q")
      case True
      then show ?thesis using ne by (simp add: loop_shutdown)
    next
      case sd: False
      then have sd': "\<not> shutdown_flag ?q" by simp
      show ?thesis
      proof (cases "\<exists>e\<in>set (data_queue q). has_timestamp t e")
        case True
        from first_match [OF True] obtain pre p post where
          d: "data_queue q = pre @ Some p # post" "\<forall>e\<in>set pre. \<not> has_timestamp t e"
            "getTimestamp (stereo_frame_lkf p) = t"
          by blast
        have d': "data_queue ?q =
            filter (\<lambda>e. e \<noteq> None) pre @ Some p # filter (\<lambda>e. e \<noteq> None) post"
          "\<forall>e\<in>set (filter (\<lambda>e. e \<noteq> None) pre). \<not> has_timestamp t e"
          using d by simp_all
        show ?thesis
          by (simp only: loop_match [OF sd ne d] loop_match [OF sd' ne d' d(3)] fst_conv)
      next
        case False
        then have n: "\<forall>e\<in>set (data_queue q). \<not> has_timestamp t e" by blast
        then have n': "\<forall>e\<in>set (data_queue ?q). \<not> has_timestamp t e" by simp
        show ?thesis
          by (simp only: loop_nomatch [OF sd ne n] loop_nomatch [OF sd' ne n'] fst_conv)
      qed
    qed
  qed
qed

text \<open>The loop appends to the log it is given.\<close>

lemma loop_log_prefix:
  "frontend_loop name t pt fp q lg =
     (case frontend_loop name t pt fp q [] of (r, q', l) \<Rightarrow> (r, q', lg @ l))"
proof (cases "t = pt")
  case True
  then show ?thesis by (simp add: loop_guard_false)
next
  case ne: False
  show ?thesis
  proof (cases "shutdown_flag q")
    case True
    then show ?thesis using ne by (simp add: loop_shutdown)
  next
    case sd: False
    show ?thesis
    proof (cases "\<exists>e\<in>set (data_queue q). has_timestamp t e")
      case True
      from first_match [OF True] obtain pre p post where
        d: "data_queue q = pre @ Some p # post" "\<forall>e\<in>set pre. \<not> has_timestamp t e"
          "getTimestamp (stereo_frame_lkf p) = t"
        by blast
      show ?thesis
        by (simp add: loop_match [OF sd ne d])
    next
      case False
      then have n: "\<forall>e\<in>set (data_queue q). \<not> has_timestamp t e" by blast
      show ?thesis
        by (simp add: loop_nomatch [OF sd ne n])
    qed
  qed
qed

text \<open>The outcome of a call, by the back-end pop and the outcome of the loop.\<close>

lemma fst_getInputPacket:
  "fst (getInputPacket m) =
     (case (if parallel_run m then popBlocking (backend_payload_queue m)
            else Returned (pop (backend_payload_queue m))) of
        Waiting \<Rightarrow> Blocked
      | Returned None \<Rightarrow> Returns nullptr
      | Returned (Some (None, bq')) \<Rightarrow> CheckFailed
      | Returned (Some (Some bp, bq')) \<Rightarrow>
          (case fst (frontend_loop (name_id m) (nav_timestamp (W_State_Blkf bp)) Timestamp_max None
                       (frontend_payload_queue m) []) of
             LoopReturnsNull \<Rightarrow> Returns nullptr
           | LoopExit None \<Rightarrow> NullDereference
           | LoopExit (Some fp) \<Rightarrow> Returns (Packet (synced_packet Map.empty bp fp))))"
  by (simp add: getInputPacket_def Let_def synced_packet_def
      split: blocking.splits option.splits prod.splits loop_exit.splits)

lemma backend_pop_cases:
  obtains (waiting) "parallel_run m" "\<not> shutdown_flag (backend_payload_queue m)"
      "data_queue (backend_payload_queue m) = []"
  | (failed) "pop (backend_payload_queue m) = None"
      "parallel_run m \<longrightarrow> shutdown_flag (backend_payload_queue m)"
  | (null) brest where "\<not> shutdown_flag (backend_payload_queue m)"
      "data_queue (backend_payload_queue m) = None # brest"
  | (popped) bp brest where "\<not> shutdown_flag (backend_payload_queue m)"
      "data_queue (backend_payload_queue m) = Some bp # brest"
proof (cases "shutdown_flag (backend_payload_queue m)")
  case True
  then show ?thesis using failed by (simp add: pop_None_iff)
next
  case sd: False
  show ?thesis
  proof (cases "data_queue (backend_payload_queue m)")
    case Nil
    then show ?thesis using sd waiting failed by (cases "parallel_run m") (simp_all add: pop_None_iff)
  next
    case (Cons e es)
    then show ?thesis using sd null popped by (cases e) simp_all
  qed
qed

lemma getInputPacket_waiting:
  "parallel_run m \<Longrightarrow> \<not> shutdown_flag (backend_payload_queue m) \<Longrightarrow>
   data_queue (backend_payload_queue m) = [] \<Longrightarrow> fst (getInputPacket m) = Blocked"
  by (simp add: getInputPacket_def popBlocking_def)

lemma getInputPacket_null_backend_payload:
  "\<not> shutdown_flag (backend_payload_queue m) \<Longrightarrow>
   data_queue (backend_payload_queue m) = None # brest \<Longrightarrow> fst (getInputPacket m) = CheckFailed"
  by (simp add: getInputPacket_def popBlocking_def pop_def)

text \<open>
  Claim C10: a null entry popped from the front-end queue does not fail the tick. When the
  loop pops a null entry it logs the warning, keeps \<^verbatim>\<open>payload_timestamp\<close> and goes on
  with the rest of the queue; so a call that has popped a back-end payload (whose
  timestamp is not the initial value of \<^verbatim>\<open>payload_timestamp\<close>, so that the loop runs) and
  finds a null entry at the head of the front-end queue does what the call without that
  entry does, with the warning logged first. A call returns null only when the pop on the
  back-end queue fails or a pop on the front-end queue it leaves fails (the queue is
  empty or shut down); it dereferences a null front-end payload only for the back-end
  timestamp that skips the loop, never after popping a null entry; and its outcome is the
  same with the null entries of the front-end queue removed.
\<close>

theorem getInputPacket_null_entry_does_not_fail:
  "(t \<noteq> pt \<and> \<not> shutdown_flag q \<and> data_queue q = None # rest \<longrightarrow>
      frontend_loop name t pt fp q lg =
      frontend_loop name t pt None (q\<lparr>data_queue := rest\<rparr>)
        (lg @ [missing_frontend_payload name])) \<and>
   (\<not> shutdown_flag (backend_payload_queue m) \<and>
    data_queue (backend_payload_queue m) = Some bp # brest \<and>
    nav_timestamp (W_State_Blkf bp) \<noteq> Timestamp_max \<and>
    \<not> shutdown_flag (frontend_payload_queue m) \<and>
    data_queue (frontend_payload_queue m) = None # rest \<longrightarrow>
      getInputPacket m =
        (case getInputPacket
                (m\<lparr>frontend_payload_queue := (frontend_payload_queue m)\<lparr>data_queue := rest\<rparr>\<rparr>) of
           (r, m', lg') \<Rightarrow> (r, m', missing_frontend_payload (name_id m) # lg'))) \<and>
   (fst (getInputPacket m) = Returns nullptr \<longrightarrow>
      pop (backend_payload_queue m) = None \<or>
      pop (frontend_payload_queue (fst (snd (getInputPacket m)))) = None) \<and>
   (fst (getInputPacket m) = NullDereference \<longrightarrow>
      (\<exists>b bs. data_queue (backend_payload_queue m) = Some b # bs \<and>
         nav_timestamp (W_State_Blkf b) = Timestamp_max)) \<and>
   fst (getInputPacket m) =
     fst (getInputPacket
            (m\<lparr>frontend_payload_queue :=
                 (frontend_payload_queue m)
                   \<lparr>data_queue := filter (\<lambda>e. e \<noteq> None) (data_queue (frontend_payload_queue m))\<rparr>\<rparr>))"
proof (intro conjI impI)
  assume "t \<noteq> pt \<and> \<not> shutdown_flag q \<and> data_queue q = None # rest"
  then show "frontend_loop name t pt fp q lg =
      frontend_loop name t pt None (q\<lparr>data_queue := rest\<rparr>)
        (lg @ [missing_frontend_payload name])"
    by (simp add: loop_popped_null pop_Cons)
next
  assume a: "\<not> shutdown_flag (backend_payload_queue m) \<and>
    data_queue (backend_payload_queue m) = Some bp # brest \<and>
    nav_timestamp (W_State_Blkf bp) \<noteq> Timestamp_max \<and>
    \<not> shutdown_flag (frontend_payload_queue m) \<and>
    data_queue (frontend_payload_queue m) = None # rest"
  let ?fq = "frontend_payload_queue m"
  let ?m' = "m\<lparr>frontend_payload_queue := ?fq\<lparr>data_queue := rest\<rparr>\<rparr>"
  let ?T = "nav_timestamp (W_State_Blkf bp)"
  have b: "\<not> shutdown_flag (backend_payload_queue m)"
    "data_queue (backend_payload_queue m) = Some bp # brest"
    and b': "\<not> shutdown_flag (backend_payload_queue ?m')"
    "data_queue (backend_payload_queue ?m') = Some bp # brest"
    using a by simp_all
  have "frontend_loop (name_id m) ?T Timestamp_max None ?fq [] =
        frontend_loop (name_id m) ?T Timestamp_max None (?fq\<lparr>data_queue := rest\<rparr>)
          ([] @ [missing_frontend_payload (name_id m)])"
    using a by (intro loop_popped_null) (simp_all add: pop_Cons)
  also have "\<dots> =
      (case frontend_loop (name_id m) ?T Timestamp_max None (?fq\<lparr>data_queue := rest\<rparr>) [] of
         (r, q', l) \<Rightarrow> (r, q', missing_frontend_payload (name_id m) # l))"
    by (subst loop_log_prefix) simp
  finally show "getInputPacket m =
        (case getInputPacket ?m' of
           (r, m', lg') \<Rightarrow> (r, m', missing_frontend_payload (name_id m) # lg'))"
    by (simp add: getInputPacket_popped [OF b] getInputPacket_popped [OF b']
        split: prod.splits loop_exit.splits option.splits)
next
  assume n: "fst (getInputPacket m) = Returns nullptr"
  show "pop (backend_payload_queue m) = None \<or>
      pop (frontend_payload_queue (fst (snd (getInputPacket m)))) = None"
  proof (cases m rule: backend_pop_cases)
    case waiting
    with n show ?thesis by (simp add: getInputPacket_waiting)
  next
    case failed
    then show ?thesis by simp
  next
    case (null brest)
    with n show ?thesis by (simp add: getInputPacket_null_backend_payload)
  next
    case (popped b bs)
    obtain r q' l where
      l: "frontend_loop (name_id m) (nav_timestamp (W_State_Blkf b)) Timestamp_max None
            (frontend_payload_queue m) [] = (r, q', l)"
      by (cases "frontend_loop (name_id m) (nav_timestamp (W_State_Blkf b)) Timestamp_max None
            (frontend_payload_queue m) []") auto
    with n have "r = LoopReturnsNull"
      by (cases r) (auto simp: getInputPacket_popped [OF popped] split: option.splits)
    with l have "pop q' = None" by (auto dest: loop_returns_null_pop_fails)
    with l \<open>r = LoopReturnsNull\<close> show ?thesis
      by (simp add: getInputPacket_popped [OF popped])
  qed
next
  assume n: "fst (getInputPacket m) = NullDereference"
  show "\<exists>b bs. data_queue (backend_payload_queue m) = Some b # bs \<and>
         nav_timestamp (W_State_Blkf b) = Timestamp_max"
  proof (cases m rule: backend_pop_cases)
    case waiting
    with n show ?thesis by (simp add: getInputPacket_waiting)
  next
    case failed
    with n show ?thesis
      by (cases "parallel_run m") (auto simp: getInputPacket_def popBlocking_def)
  next
    case (null brest)
    with n show ?thesis by (simp add: getInputPacket_null_backend_payload)
  next
    case (popped b bs)
    show ?thesis
    proof (cases "nav_timestamp (W_State_Blkf b) = Timestamp_max")
      case True
      with popped show ?thesis by blast
    next
      case False
      from loop_cases [OF False, of "name_id m" None "frontend_payload_queue m" "[]"] n
      show ?thesis
        by (auto simp: getInputPacket_popped [OF popped])
    qed
  qed
next
  show "fst (getInputPacket m) =
     fst (getInputPacket
            (m\<lparr>frontend_payload_queue :=
                 (frontend_payload_queue m)
                   \<lparr>data_queue := filter (\<lambda>e. e \<noteq> None) (data_queue (frontend_payload_queue m))\<rparr>\<rparr>))"
    unfolding fst_getInputPacket
    using loop_outcome_without_nulls [of "name_id m" _ Timestamp_max None
        "frontend_payload_queue m" "[]"]
    by (simp split: blocking.splits option.splits prod.splits)
qed

text \<open>
  The back-end timestamp 5 in step mode: with the front-end queue holding one null entry
  the call logs the warning, then the error of the failed pop, and returns null; with a
  null entry followed by the payload of timestamp 5 it logs the warning and pairs.
\<close>

theorem getInputPacket_null_entry_does_not_fail_witness:
  "getInputPacket
     (fillFrontendQueue None (example_module False [5] [])) =
   (Returns nullptr, example_module False [] [],
    [missing_frontend_payload ''Mesher'', frontend_queue_empty_or_shutdown ''Mesher'']) \<and>
   getInputPacket
     (fillFrontendQueue (Some (example_frontend 5))
        (fillFrontendQueue None (example_module False [5] []))) =
   (Returns (Packet (synced_packet Map.empty (example_backend 5) (example_frontend 5))),
    example_module False [] [], [missing_frontend_payload ''Mesher''])"
proof -
  let ?m0 = "example_module False [5] []"
  let ?m1 = "fillFrontendQueue None ?m0"
  let ?m2 = "fillFrontendQueue (Some (example_frontend 5)) ?m1"
  have m1: "?m1 = ?m0\<lparr>frontend_payload_queue := \<lparr>data_queue = [None], shutdown_flag = False\<rparr>\<rparr>"
    by (simp add: fillFrontendQueue_def push_def example_module_eq)
  have m2: "?m2 = ?m0\<lparr>frontend_payload_queue :=
      \<lparr>data_queue = [None, Some (example_frontend 5)], shutdown_flag = False\<rparr>\<rparr>"
    by (simp add: fillFrontendQueue_def push_def example_module_eq)
  have e0: "getInputPacket ?m0 =
      (Returns nullptr, example_module False [] [], [frontend_queue_empty_or_shutdown ''Mesher''])"
    using getInputPacket_nomatch [where m = ?m0 and bp = "example_backend 5" and brest = "[]"]
    by (simp add: example_module_eq Timestamp_max_def missing_payload_warnings_simps)
  have e5: "getInputPacket (example_module False [5] [5]) =
      (Returns (Packet (synced_packet Map.empty (example_backend 5) (example_frontend 5))),
       example_module False [] [], [])"
    using getInputPacket_match [where m = "example_module False [5] [5]"
        and bp = "example_backend 5" and brest = "[]" and pre = "[]" and fp = "example_frontend 5"
        and post = "[]"]
    by (simp add: example_module_eq Timestamp_max_def missing_payload_warnings_simps)
  have r0: "?m1\<lparr>frontend_payload_queue := (frontend_payload_queue ?m1)\<lparr>data_queue := []\<rparr>\<rparr> = ?m0"
    by (simp add: fillFrontendQueue_def push_def example_module_eq)
  have r5: "?m2\<lparr>frontend_payload_queue :=
              (frontend_payload_queue ?m2)\<lparr>data_queue := [Some (example_frontend 5)]\<rparr>\<rparr> =
            example_module False [5] [5]"
    by (simp add: fillFrontendQueue_def push_def example_module_eq)
  have n1: "name_id ?m1 = ''Mesher''" and n2: "name_id ?m2 = ''Mesher''"
    by (simp_all add: fillFrontendQueue_def push_def example_module_eq)
  have h1: "\<not> shutdown_flag (backend_payload_queue ?m1) \<and>
      data_queue (backend_payload_queue ?m1) = Some (example_backend 5) # [] \<and>
      nav_timestamp (W_State_Blkf (example_backend 5)) \<noteq> Timestamp_max \<and>
      \<not> shutdown_flag (frontend_payload_queue ?m1) \<and>
      data_queue (frontend_payload_queue ?m1) = None # []"
    by (simp add: fillFrontendQueue_def push_def example_module_eq Timestamp_max_def)
  have h2: "\<not> shutdown_flag (backend_payload_queue ?m2) \<and>
      data_queue (backend_payload_queue ?m2) = Some (example_backend 5) # [] \<and>
      nav_timestamp (W_State_Blkf (example_backend 5)) \<noteq> Timestamp_max \<and>
      \<not> shutdown_flag (frontend_payload_queue ?m2) \<and>
      data_queue (frontend_payload_queue ?m2) = None # [Some (example_frontend 5)]"
    by (simp add: fillFrontendQueue_def push_def example_module_eq Timestamp_max_def)
  from getInputPacket_null_entry_does_not_fail
    [where m = ?m1 and bp = "example_backend 5" and brest = "[]" and rest = "[]",
      THEN conjunct2, THEN conjunct1, rule_format, OF h1]
  have 1: "getInputPacket ?m1 =
      (Returns nullptr, example_module False [] [],
       [missing_frontend_payload ''Mesher'', frontend_queue_empty_or_shutdown ''Mesher''])"
    unfolding r0 e0 n1 by simp
  from getInputPacket_null_entry_does_not_fail
    [where m = ?m2 and bp = "example_backend 5" and brest = "[]"
       and rest = "[Some (example_frontend 5)]",
      THEN conjunct2, THEN conjunct1, rule_format, OF h2]
  have 2: "getInputPacket ?m2 =
      (Returns (Packet (synced_packet Map.empty (example_backend 5) (example_frontend 5))),
       example_module False [] [], [missing_frontend_payload ''Mesher''])"
    unfolding r5 e5 n2 by simp
  from 1 2 show ?thesis by simp
qed

section \<open>Properties of Mesher\<close>

subsection \<open>The example triangles\<close>

lemma sqrt_squares:
  "sqrt 9 = 3" "sqrt 16 = 4" "sqrt 25 = 5" "sqrt 81 = 9" "sqrt 100 = 10"
  using real_sqrt_abs [of 3] real_sqrt_abs [of 4] real_sqrt_abs [of 5]
    real_sqrt_abs [of 9] real_sqrt_abs [of 10]
  by simp_all

lemma edge_lengths_example_triangle: "edge_lengths example_triangle = (3, 5, 4)"
  by (simp add: edge_lengths_def example_triangle_def example_vertex_def edge_length_def
      sqrt_squares)

lemma edge_lengths_example_sliver: "edge_lengths example_sliver = (1, 9, 10)"
  by (simp add: edge_lengths_def example_sliver_def example_vertex_def edge_length_def
      sqrt_squares)

lemma view_angle_ratio_example [simp]:
  "view_angle_ratio example_tangential_radial pose polygon = 1"
  by (cases polygon) (simp add: view_angle_ratio_def example_tangential_radial_def)

subsection \<open>Bad triangles\<close>

lemma isBadTriangle_edge_lengths:
  "edge_lengths polygon = (a, b, c) \<Longrightarrow>
   isBadTriangle tangential_radial polygon pose min_ratio min_elongation max_side \<longleftrightarrow>
     min a (min b c) / max a (max b c) < min_ratio \<or> max_side < max a (max b c) \<or>
     view_angle_ratio tangential_radial pose polygon < min_elongation"
  by (cases polygon)
     (auto simp: isBadTriangle_def edge_lengths_def getRatioBetweenSmallestAndLargestSide_def
        view_angle_ratio_def Let_def)

text \<open>
  Claim C6, on \<^verbatim>\<open>isBadTriangle\<close> and \<^verbatim>\<open>filterOutBadTriangles\<close> as modelled from the
  spec: a triangle with edge lengths \<open>(a, b, c)\<close> is in the mesh after the filter if and
  only if it was in the mesh and the ratio of its shortest to its longest edge is at least
  the minimum ratio, its longest edge is at most the maximum side, and its view-angle
  ratio is at least the minimum elongation ratio. The quotient of a triangle whose three
  vertices coincide is \<open>0 / 0\<close>, which is 0 here.
\<close>

theorem filterOutBadTriangles_retains_iff:
  assumes "edge_lengths polygon = (a, b, c)"
  shows "polygon \<in> set (filterOutBadTriangles tangential_radial pose min_ratio min_elongation
                         max_side mesh_3d) \<longleftrightarrow>
         polygon \<in> set mesh_3d \<and>
         min_ratio \<le> min a (min b c) / max a (max b c) \<and>
         max a (max b c) \<le> max_side \<and>
         min_elongation \<le> view_angle_ratio tangential_radial pose polygon"
  using isBadTriangle_edge_lengths [OF assms, of tangential_radial pose min_ratio min_elongation
      max_side]
  by (auto simp: filterOutBadTriangles_def)

text \<open>
  With minimum ratio 1/2, minimum elongation 1/2 and maximum side 6 the 3-4-5 triangle is
  kept and the sliver with sides 1, 9, 10 is removed.
\<close>

theorem filterOutBadTriangles_retains_iff_witness:
  "filterOutBadTriangles example_tangential_radial 0 (1 / 2) (1 / 2) 6
     [example_triangle, example_sliver] = [example_triangle]"
proof -
  let ?f = "filterOutBadTriangles example_tangential_radial 0 (1 / 2) (1 / 2) 6"
  have t: "example_triangle \<in> set (?f [example_triangle, example_sliver])"
    using filterOutBadTriangles_retains_iff
      [OF edge_lengths_example_triangle, of example_tangential_radial 0 "1 / 2" "1 / 2" 6
          "[example_triangle, example_sliver]"]
    by simp
  have s: "example_sliver \<notin> set (?f [example_triangle, example_sliver])"
    using filterOutBadTriangles_retains_iff
      [OF edge_lengths_example_sliver, of example_tangential_radial 0 "1 / 2" "1 / 2" 6
          "[example_triangle, example_sliver]"]
    by simp
  from t s show ?thesis
    by (auto simp: filterOutBadTriangles_def split: if_splits)
qed

subsection \<open>The time horizon\<close>

lemma lift_pixel_dom:
  "lift_pixel points keypoints landmarks pixel = Some v \<Longrightarrow> getLmkId v \<in> dom points"
  by (auto simp: lift_pixel_def split: option.splits)

lemma lift_triangle_dom:
  "lift_triangle points keypoints landmarks triangle_2d = Some polygon \<Longrightarrow>
   v \<in> set (polygon_vertices polygon) \<Longrightarrow> getLmkId v \<in> dom points"
  by (cases triangle_2d)
     (auto simp: lift_triangle_def polygon_vertices_def split: option.splits
        dest: lift_pixel_dom)

lemma updatePolygonMeshToTimeHorizon_dom:
  "polygon \<in> set (updatePolygonMeshToTimeHorizon points True mesh_3d) \<Longrightarrow>
   v \<in> set (polygon_vertices polygon) \<Longrightarrow> getLmkId v \<in> dom points"
  by (auto simp: updatePolygonMeshToTimeHorizon_def list_all_iff)

text \<open>What the mesh holds after lifting: the old polygons and the lifted triangles kept.\<close>

lemma populate3dMesh_set:
  "set (populate3dMesh tr mesh_2d points keypoints landmarks pose r e s mesh_3d) =
     set mesh_3d \<union>
     {polygon. \<exists>triangle_2d \<in> set mesh_2d.
        lift_triangle points keypoints landmarks triangle_2d = Some polygon \<and>
        \<not> isBadTriangle tr polygon pose r e s}"
  by (induction mesh_2d arbitrary: mesh_3d) (auto split: option.splits)

text \<open>The mesh after an update: what lifting gives, reduced to the points map.\<close>

lemma populate3dMeshTimeHorizon_set:
  "set (populate3dMeshTimeHorizon tr mesh_2d points keypoints landmarks pose r e s mesh_3d) =
     {polygon \<in> set mesh_3d. \<forall>v \<in> set (polygon_vertices polygon). getLmkId v \<in> dom points} \<union>
     {polygon. \<exists>triangle_2d \<in> set mesh_2d.
        lift_triangle points keypoints landmarks triangle_2d = Some polygon \<and>
        \<not> isBadTriangle tr polygon pose r e s}"
  by (auto simp: populate3dMeshTimeHorizon_def updatePolygonMeshToTimeHorizon_def
      populate3dMesh_set list_all_iff dest: lift_triangle_dom)

lemma lift_example_triangle:
  "lift_triangle example_points example_keypoints example_landmarks
     ((10, 10), (20, 10), (10, 20)) = Some example_triangle"
  by (simp add: lift_triangle_def lift_pixel_def findLmkIdFromPixel_def example_points_def
      example_keypoints_def example_landmarks_def example_triangle_def example_vertex_def)

lemma lift_example_triangle_lost:
  "lift_triangle (example_points(3 := None)) example_keypoints example_landmarks
     ((10, 10), (20, 10), (10, 20)) = None"
  by (simp add: lift_triangle_def lift_pixel_def findLmkIdFromPixel_def example_points_def
      example_keypoints_def example_landmarks_def)

lemma example_triangle_good:
  "\<not> isBadTriangle example_tangential_radial example_triangle 0 (1 / 2) (1 / 2) 6"
  by (simp add: isBadTriangle_edge_lengths [OF edge_lengths_example_triangle])

text \<open>
  Claim C7, on \<^verbatim>\<open>populate3dMeshTimeHorizon\<close> and \<^verbatim>\<open>updatePolygonMeshToTimeHorizon\<close> as
  modelled from the spec: after a mesh update every vertex of every polygon of the mesh
  has a landmark id of that cycle's points map; so a landmark that is in the points map
  of one cycle and not in that of the next is referenced by no polygon after the next
  update, whatever the frames, camera poses and thresholds of the two cycles.
\<close>

theorem populate3dMeshTimeHorizon_time_horizon:
  "(\<forall>polygon \<in> set (populate3dMeshTimeHorizon tr mesh_2d points keypoints landmarks pose r e s
                       mesh_3d).
      \<forall>v \<in> set (polygon_vertices polygon). getLmkId v \<in> dom points) \<and>
   (L \<in> dom points \<and> L \<notin> dom points' \<longrightarrow>
      (\<forall>polygon \<in> set (populate3dMeshTimeHorizon tr mesh_2d' points' keypoints' landmarks' pose'
                          r' e' s'
                          (populate3dMeshTimeHorizon tr mesh_2d points keypoints landmarks pose
                             r e s mesh_3d)).
         L \<notin> set (polygon_lmk_ids polygon)))"
proof -
  have inv: "getLmkId v \<in> dom pts"
    if "polygon \<in> set (populate3dMeshTimeHorizon tr m2 pts kps lmks ps r0 e0 s0 m3)"
      and "v \<in> set (polygon_vertices polygon)"
    for polygon v m2 pts kps lmks ps r0 e0 s0 m3
    using that unfolding populate3dMeshTimeHorizon_def
    by (rule updatePolygonMeshToTimeHorizon_dom)
  show ?thesis
  proof (intro conjI ballI impI)
    fix polygon v
    assume "polygon \<in> set (populate3dMeshTimeHorizon tr mesh_2d points keypoints landmarks pose
                             r e s mesh_3d)"
      and "v \<in> set (polygon_vertices polygon)"
    then show "getLmkId v \<in> dom points" by (rule inv)
  next
    fix polygon
    assume L: "L \<in> dom points \<and> L \<notin> dom points'"
      and p: "polygon \<in> set (populate3dMeshTimeHorizon tr mesh_2d' points' keypoints' landmarks'
                pose' r' e' s'
                (populate3dMeshTimeHorizon tr mesh_2d points keypoints landmarks pose r e s
                   mesh_3d))"
    show "L \<notin> set (polygon_lmk_ids polygon)"
    proof
      assume "L \<in> set (polygon_lmk_ids polygon)"
      then obtain v where "v \<in> set (polygon_vertices polygon)" "getLmkId v = L"
        by (auto simp: polygon_lmk_ids_def)
      with inv [OF p] L show False by blast
    qed
  qed
qed

text \<open>
  Cycle \<open>N\<close>: the landmarks 1, 2, 3 are in the points map and the mesh is the 3-4-5
  triangle. Cycle \<open>N + 1\<close>: landmark 3 has left the points map and no polygon of the mesh
  references it.
\<close>

theorem populate3dMeshTimeHorizon_time_horizon_witness:
  "populate3dMeshTimeHorizon example_tangential_radial example_mesh_2d example_points
     example_keypoints example_landmarks 0 (1 / 2) (1 / 2) 6 [] = [example_triangle] \<and>
   3 \<in> set (polygon_lmk_ids example_triangle) \<and>
   \<not> (\<exists>polygon \<in> set (populate3dMeshTimeHorizon example_tangential_radial example_mesh_2d
                         (example_points(3 := None)) example_keypoints example_landmarks 0
                         (1 / 2) (1 / 2) 6 [example_triangle]).
        3 \<in> set (polygon_lmk_ids polygon))"
proof -
  have n: "populate3dMeshTimeHorizon example_tangential_radial example_mesh_2d example_points
     example_keypoints example_landmarks 0 (1 / 2) (1 / 2) 6 [] = [example_triangle]"
    by (simp add: populate3dMeshTimeHorizon_def example_mesh_2d_def lift_example_triangle
        example_triangle_good updatePolygonMeshToTimeHorizon_def)
       (simp add: example_triangle_def example_vertex_def polygon_vertices_def
        example_points_def)
  have ids: "3 \<in> set (polygon_lmk_ids example_triangle)"
    by (simp add: polygon_lmk_ids_def polygon_vertices_def example_triangle_def
        example_vertex_def)
  have d: "3 \<in> dom example_points \<and> 3 \<notin> dom (example_points(3 := None))"
    by (simp add: example_points_def)
  from populate3dMeshTimeHorizon_time_horizon
    [of example_tangential_radial example_mesh_2d example_points example_keypoints
        example_landmarks 0 "1 / 2" "1 / 2" 6 "[]" 3 "example_points(3 := None)"
        example_mesh_2d example_keypoints example_landmarks 0 "1 / 2" "1 / 2" 6]
    d n ids
  show ?thesis by auto
qed

subsection \<open>Appending the landmark ids of a polygon\<close>

lemma set_fold_append_lmk_id:
  "set (fold (append_lmk_id extra points) xs ids) =
     set ids \<union> {x \<in> set xs. extra \<longrightarrow> points x \<noteq> None}"
  by (induction xs arbitrary: ids) (auto simp: append_lmk_id_def)

lemma fold_append_lmk_id_saturated:
  "\<forall>x\<in>set xs. (extra \<longrightarrow> points x \<noteq> None) \<longrightarrow> x \<in> set ids \<Longrightarrow>
   fold (append_lmk_id extra points) xs ids = ids"
  by (induction xs arbitrary: ids) (auto simp: append_lmk_id_def)

lemma fold_append_lmk_id_fixed:
  assumes "fold (append_lmk_id extra points) xs ids = ids"
  shows "\<forall>x\<in>set xs. (extra \<longrightarrow> points x \<noteq> None) \<longrightarrow> x \<in> set ids"
  using set_fold_append_lmk_id [of extra points xs ids] assms by auto

lemma distinct_fold_append_lmk_id:
  "distinct ids \<Longrightarrow> distinct (fold (append_lmk_id extra points) xs ids)"
  by (induction xs arbitrary: ids) (auto simp: append_lmk_id_def)

lemma appendLmkIdsOfPolygon_idem:
  "appendLmkIdsOfPolygon extra polygon (appendLmkIdsOfPolygon extra polygon ids points) points =
   appendLmkIdsOfPolygon extra polygon ids points"
  unfolding appendLmkIdsOfPolygon_def
  by (rule fold_append_lmk_id_saturated) (simp add: set_fold_append_lmk_id)

lemma appendLmkIdsOfPolygon_superset:
  "set ids \<subseteq> set (appendLmkIdsOfPolygon extra polygon ids points)"
  by (auto simp: appendLmkIdsOfPolygon_def set_fold_append_lmk_id)

lemma appendLmkIdsOfPolygon_distinct:
  "distinct ids \<Longrightarrow> distinct (appendLmkIdsOfPolygon extra polygon ids points)"
  by (simp add: appendLmkIdsOfPolygon_def distinct_fold_append_lmk_id)

lemma appendLmkIdsOfPolygon_fixed_mono:
  assumes "appendLmkIdsOfPolygon extra polygon ids points = ids" and "set ids \<subseteq> set ids'"
  shows "appendLmkIdsOfPolygon extra polygon ids' points = ids'"
  unfolding appendLmkIdsOfPolygon_def
proof (rule fold_append_lmk_id_saturated)
  from fold_append_lmk_id_fixed [OF assms(1) [unfolded appendLmkIdsOfPolygon_def]] assms(2)
  show "\<forall>x\<in>set (polygon_lmk_ids polygon). (extra \<longrightarrow> points x \<noteq> None) \<longrightarrow> x \<in> set ids'"
    by blast
qed

subsection \<open>Planes only grow\<close>

lemma grown_refl: "grown a a"
  by (simp add: grown_def)

lemma grown_trans: "grown a b \<Longrightarrow> grown b c \<Longrightarrow> grown a c"
  by (cases a, cases b, cases c) (auto simp: grown_def)

lemma grown_update:
  "set (lmk_ids a) \<subseteq> set ids \<Longrightarrow> grown a (a\<lparr>lmk_ids := ids\<rparr>)"
  by (simp add: grown_def)

lemma grown_geometry: "grown a b \<Longrightarrow> normal b = normal a \<and> plane_distance b = plane_distance a"
  by (cases a, cases b) (auto simp: grown_def)

lemma list_all2_grown_refl: "list_all2 grown ps ps"
  by (simp add: list_all2_refl grown_refl)

lemma list_all2_grown_trans:
  "list_all2 grown ps qs \<Longrightarrow> list_all2 grown qs rs \<Longrightarrow> list_all2 grown ps rs"
  by (rule list_all2_trans [where ?P1.0 = grown and ?P2.0 = grown]) (auto intro: grown_trans)

subsection \<open>One polygon against the planes\<close>

lemma updatePlanesLmkIdsFromPolygon_grown:
  "list_all2 grown planes
     (updatePlanesLmkIdsFromPolygon naa extra planes polygon tn nt dt points single)"
  by (induction planes)
     (auto simp: grown_refl list_all2_grown_refl grown_update appendLmkIdsOfPolygon_superset)

lemma updatePlanesLmkIdsFromPolygon_distinct:
  "\<forall>plane \<in> set planes. distinct (lmk_ids plane) \<Longrightarrow>
   \<forall>plane \<in> set (updatePlanesLmkIdsFromPolygon naa extra planes polygon tn nt dt points single).
     distinct (lmk_ids plane)"
  by (induction planes) (auto simp: appendLmkIdsOfPolygon_distinct)

text \<open>Associating the same polygon again changes nothing.\<close>

lemma updatePlanesLmkIdsFromPolygon_idem:
  "updatePlanesLmkIdsFromPolygon naa extra
     (updatePlanesLmkIdsFromPolygon naa extra planes polygon tn nt dt points single)
     polygon tn nt dt points single =
   updatePlanesLmkIdsFromPolygon naa extra planes polygon tn nt dt points single"
  by (induction planes) (auto simp: appendLmkIdsOfPolygon_idem)

text \<open>Planes that a polygon does not change stay unchanged by it once they have grown.\<close>

lemma updatePlanesLmkIdsFromPolygon_fixed_mono:
  "list_all2 grown planes planes' \<Longrightarrow>
   updatePlanesLmkIdsFromPolygon naa extra planes polygon tn nt dt points single = planes \<Longrightarrow>
   updatePlanesLmkIdsFromPolygon naa extra planes' polygon tn nt dt points single = planes'"
proof (induction planes planes' rule: list_all2_induct)
  case Nil
  then show ?case by simp
next
  case (Cons a as b bs)
  have geo: "normal b = normal a" "plane_distance b = plane_distance a"
    using grown_geometry [OF Cons.hyps(1)] by simp_all
  have sub: "set (lmk_ids a) \<subseteq> set (lmk_ids b)"
    using Cons.hyps(1) by (simp add: grown_def)
  show ?case
  proof (cases "naa (normal a) tn nt \<and>
                isPolygonAtDistanceFromPlane polygon (plane_distance a) (normal a) dt")
    case True
    with Cons.prems have
      a: "a\<lparr>lmk_ids := appendLmkIdsOfPolygon extra polygon (lmk_ids a) points\<rparr> = a"
      and rest: "(if single then as
                  else updatePlanesLmkIdsFromPolygon naa extra as polygon tn nt dt points single)
                 = as"
      by simp_all
    from a have "appendLmkIdsOfPolygon extra polygon (lmk_ids a) points = lmk_ids a"
      by (cases a) simp
    from appendLmkIdsOfPolygon_fixed_mono [OF this sub]
    have b: "appendLmkIdsOfPolygon extra polygon (lmk_ids b) points = lmk_ids b" .
    have "updatePlanesLmkIdsFromPolygon naa extra bs polygon tn nt dt points single = bs"
      if "\<not> single"
      using that rest Cons.IH by simp
    with True geo b show ?thesis by simp
  next
    case False
    with Cons.prems have
      "updatePlanesLmkIdsFromPolygon naa extra as polygon tn nt dt points single = as"
      by simp
    with Cons.IH False geo show ?thesis by auto
  qed
qed

subsection \<open>One polygon of the mesh\<close>

lemma update_planes_from_mesh_polygon_grown:
  "list_all2 grown planes
     (update_planes_from_mesh_polygon cn naa extra single nt dt points polygon planes)"
  by (cases polygon)
     (simp add: update_planes_from_mesh_polygon_def updatePlanesLmkIdsFromPolygon_grown
        list_all2_grown_refl split: option.splits)

lemma update_planes_from_mesh_polygon_distinct:
  "\<forall>plane \<in> set planes. distinct (lmk_ids plane) \<Longrightarrow>
   \<forall>plane \<in> set (update_planes_from_mesh_polygon cn naa extra single nt dt points polygon
                    planes).
     distinct (lmk_ids plane)"
  using updatePlanesLmkIdsFromPolygon_distinct [of planes]
  by (cases polygon) (simp add: update_planes_from_mesh_polygon_def split: option.splits)

lemma update_planes_from_mesh_polygon_idem:
  "update_planes_from_mesh_polygon cn naa extra single nt dt points polygon
     (update_planes_from_mesh_polygon cn naa extra single nt dt points polygon planes) =
   update_planes_from_mesh_polygon cn naa extra single nt dt points polygon planes"
  by (cases polygon)
     (simp add: update_planes_from_mesh_polygon_def updatePlanesLmkIdsFromPolygon_idem
        split: option.splits)

lemma update_planes_from_mesh_polygon_fixed_mono:
  "list_all2 grown planes planes' \<Longrightarrow>
   update_planes_from_mesh_polygon cn naa extra single nt dt points polygon planes = planes \<Longrightarrow>
   update_planes_from_mesh_polygon cn naa extra single nt dt points polygon planes' = planes'"
  by (cases polygon)
     (auto simp: update_planes_from_mesh_polygon_def split: option.splits
        intro: updatePlanesLmkIdsFromPolygon_fixed_mono)

subsection \<open>The whole mesh\<close>

lemma fold_update_grown:
  "list_all2 grown planes
     (fold (update_planes_from_mesh_polygon cn naa extra single nt dt points) mesh planes)"
proof (induction mesh arbitrary: planes)
  case Nil
  then show ?case by (simp add: list_all2_grown_refl)
next
  case (Cons polygon mesh)
  let ?U = "update_planes_from_mesh_polygon cn naa extra single nt dt points"
  have 1: "list_all2 grown planes (?U polygon planes)"
    by (rule update_planes_from_mesh_polygon_grown)
  have 2: "list_all2 grown (?U polygon planes) (fold ?U mesh (?U polygon planes))"
    by (rule Cons.IH)
  from list_all2_grown_trans [OF 1 2] show ?case by simp
qed

lemma fold_update_distinct:
  "\<forall>plane \<in> set planes. distinct (lmk_ids plane) \<Longrightarrow>
   \<forall>plane \<in> set (fold (update_planes_from_mesh_polygon cn naa extra single nt dt points) mesh
                    planes).
     distinct (lmk_ids plane)"
proof (induction mesh arbitrary: planes)
  case Nil
  then show ?case by simp
next
  case (Cons polygon mesh)
  from Cons.IH [OF update_planes_from_mesh_polygon_distinct [OF Cons.prems]]
  show ?case by simp
qed

text \<open>After the pass over the mesh no polygon of the mesh changes the planes any more.\<close>

lemma fold_update_saturated:
  "polygon \<in> set mesh \<Longrightarrow>
   update_planes_from_mesh_polygon cn naa extra single nt dt points polygon
     (fold (update_planes_from_mesh_polygon cn naa extra single nt dt points) mesh planes) =
   fold (update_planes_from_mesh_polygon cn naa extra single nt dt points) mesh planes"
proof (induction mesh arbitrary: planes)
  case Nil
  then show ?case by simp
next
  case (Cons q mesh)
  let ?U = "update_planes_from_mesh_polygon cn naa extra single nt dt points"
  show ?case
  proof (cases "polygon = q")
    case True
    have "?U q (fold ?U mesh (?U q planes)) = fold ?U mesh (?U q planes)"
      by (rule update_planes_from_mesh_polygon_fixed_mono
            [OF fold_update_grown update_planes_from_mesh_polygon_idem])
    with True show ?thesis by simp
  next
    case False
    with Cons.prems have "polygon \<in> set mesh" by simp
    from Cons.IH [OF this] show ?thesis by simp
  qed
qed

lemma fold_fixed:
  "\<forall>x\<in>set xs. f x s = s \<Longrightarrow> fold f xs s = s"
  by (induction xs) simp_all

lemma updatePlanesLmkIdsFromPolygon_prefix:
  "take (length planes)
     (updatePlanesLmkIdsFromPolygon naa extra (planes @ others) polygon tn nt dt points single) =
   updatePlanesLmkIdsFromPolygon naa extra planes polygon tn nt dt points single"
  by (induction planes) auto

lemma length_update_planes_from_mesh_polygon:
  "length (update_planes_from_mesh_polygon cn naa extra single nt dt points polygon planes) =
   length planes"
  using update_planes_from_mesh_polygon_grown [of planes cn naa extra single nt dt points polygon]
  by (simp add: list_all2_lengthD)

lemma update_planes_from_mesh_polygon_prefix:
  "take (length planes)
     (update_planes_from_mesh_polygon cn naa extra single nt dt points polygon (planes @ others)) =
   update_planes_from_mesh_polygon cn naa extra single nt dt points polygon planes"
  by (cases polygon)
     (simp add: update_planes_from_mesh_polygon_def updatePlanesLmkIdsFromPolygon_prefix
        split: option.splits)

lemma fold_update_prefix:
  "take (length planes)
     (fold (update_planes_from_mesh_polygon cn naa extra single nt dt points) mesh
        (planes @ others)) =
   fold (update_planes_from_mesh_polygon cn naa extra single nt dt points) mesh planes"
proof (induction mesh arbitrary: planes others)
  case Nil
  then show ?case by simp
next
  case (Cons polygon mesh)
  let ?U = "update_planes_from_mesh_polygon cn naa extra single nt dt points"
  have len: "length (?U polygon planes) = length planes"
    by (rule length_update_planes_from_mesh_polygon)
  have "?U polygon (planes @ others) =
        take (length planes) (?U polygon (planes @ others)) @
        drop (length planes) (?U polygon (planes @ others))"
    by simp
  then have split: "?U polygon (planes @ others) =
        ?U polygon planes @ drop (length planes) (?U polygon (planes @ others))"
    by (simp only: update_planes_from_mesh_polygon_prefix)
  have "take (length planes) (fold ?U mesh (?U polygon (planes @ others))) =
        take (length (?U polygon planes))
          (fold ?U mesh (?U polygon planes @ drop (length planes) (?U polygon (planes @ others))))"
    using split len by simp
  also have "\<dots> = fold ?U mesh (?U polygon planes)"
    by (rule Cons.IH)
  finally show ?case by simp
qed

lemma updatePlanesLmkIdsFromMesh_idem:
  "updatePlanesLmkIdsFromMesh cn naa extra single mesh
     (updatePlanesLmkIdsFromMesh cn naa extra single mesh planes nt dt points) nt dt points =
   updatePlanesLmkIdsFromMesh cn naa extra single mesh planes nt dt points"
  unfolding updatePlanesLmkIdsFromMesh_def
  by (intro fold_fixed) (simp add: fold_update_saturated)

lemma updatePlanesLmkIdsFromMesh_prefix:
  "take (length planes)
     (updatePlanesLmkIdsFromMesh cn naa extra single mesh (planes @ others) nt dt points) =
   updatePlanesLmkIdsFromMesh cn naa extra single mesh planes nt dt points"
  unfolding updatePlanesLmkIdsFromMesh_def by (rule fold_update_prefix)

lemma updatePlanesLmkIdsFromMesh_grown:
  "list_all2 grown planes
     (updatePlanesLmkIdsFromMesh cn naa extra single mesh planes nt dt points)"
  unfolding updatePlanesLmkIdsFromMesh_def by (rule fold_update_grown)

lemma updatePlanesLmkIdsFromMesh_distinct:
  "\<forall>plane \<in> set planes. distinct (lmk_ids plane) \<Longrightarrow>
   \<forall>plane \<in> set (updatePlanesLmkIdsFromMesh cn naa extra single mesh planes nt dt points).
     distinct (lmk_ids plane)"
  unfolding updatePlanesLmkIdsFromMesh_def by (rule fold_update_distinct)

text \<open>The match of a candidate looks at the normal and the distance of a plane only.\<close>

lemma planes_match_grown:
  "grown a b \<Longrightarrow> planes_match s nt dt c b = planes_match s nt dt c a"
  using grown_geometry [of a b] by (simp add: planes_match_def)

lemma list_ex_planes_match_grown:
  "list_all2 grown planes planes' \<Longrightarrow>
   list_ex (planes_match s nt dt c) planes' = list_ex (planes_match s nt dt c) planes"
  by (induction planes planes' rule: list_all2_induct) (simp_all add: planes_match_grown)

lemma associatePlanes_grown:
  "list_all2 grown planes planes' \<Longrightarrow>
   associatePlanes s segmented planes' nt dt = associatePlanes s segmented planes nt dt"
  by (simp add: associatePlanes_def list_ex_planes_match_grown)

subsection \<open>Association of planes\<close>

text \<open>
  The geometry of the candidates does not depend on the identifier they are numbered
  from.
\<close>

lemma planes_match_geometry:
  "geometry c = geometry c' \<Longrightarrow> geometry p = geometry p' \<Longrightarrow>
   planes_match s nt dt c p = planes_match s nt dt c' p'"
  by (simp add: planes_match_def geometry_def)

lemma map_enumerate_snd:
  "map (\<lambda>(i, x). h x) (enumerate k xs) = map h xs"
  by (induction xs arbitrary: k) simp_all

lemma map_geometry_segmentHorizontalPlanes:
  "map geometry (segmentHorizontalPlanes s k n heights) =
   map (\<lambda>h. (n, h)) (histogram_peaks_1d s heights)"
  using map_enumerate_snd [of "\<lambda>h. (n, h)" k "histogram_peaks_1d s heights"]
  by (simp add: segmentHorizontalPlanes_def geometry_def case_prod_unfold comp_def)

lemma map_geometry_segmentWalls:
  "map geometry (segmentWalls s k ws) =
   map (\<lambda>(theta, d). ((cos theta, sin theta, 0), d)) (histogram_peaks_2d s ws)"
  using map_enumerate_snd
    [of "\<lambda>(theta, d). ((cos theta, sin theta, 0), d)" k "histogram_peaks_2d s ws"]
  by (simp add: segmentWalls_def geometry_def case_prod_unfold comp_def)

lemma map_geometry_segmentNewPlanes:
  "map geometry (segmentNewPlanes s k heights ws) =
   map geometry (segmentNewPlanes s k' heights ws)"
  by (simp add: segmentNewPlanes_def Let_def map_geometry_segmentHorizontalPlanes
      map_geometry_segmentWalls)

lemma lmk_ids_segmentNewPlanes:
  "c \<in> set (segmentNewPlanes s k heights ws) \<Longrightarrow> lmk_ids c = []"
  by (auto simp: segmentNewPlanes_def Let_def segmentHorizontalPlanes_def segmentWalls_def)

lemma set_associatePlanes:
  "set (associatePlanes s segmented planes nt dt) \<subseteq> set segmented"
  by (auto simp: associatePlanes_def)

text \<open>
  With a match that holds between planes of the same geometry, the candidates of a second
  pass all match a plane of the first.
\<close>

lemma associatePlanes_second_pass:
  assumes refl: "\<forall>n. isNormalAroundAxis s n n nt" "0 \<le> dt"
    and geo: "map geometry segmented' = map geometry segmented"
  shows "associatePlanes s segmented'
           (planes @ associatePlanes s segmented planes nt dt) nt dt = []"
proof -
  have "list_ex (planes_match s nt dt c')
          (planes @ associatePlanes s segmented planes nt dt)"
    if c': "c' \<in> set segmented'" for c'
  proof -
    from c' have "geometry c' \<in> set (map geometry segmented')" by simp
    with geo obtain c where c: "c \<in> set segmented" "geometry c = geometry c'"
      by auto
    show ?thesis
    proof (cases "list_ex (planes_match s nt dt c) planes")
      case True
      then obtain p where "p \<in> set planes" "planes_match s nt dt c p"
        by (auto simp: list_ex_iff)
      with c(2) have "planes_match s nt dt c' p"
        using planes_match_geometry [of c c' p p s nt dt] by simp
      with \<open>p \<in> set planes\<close> show ?thesis by (auto simp: list_ex_iff)
    next
      case False
      with c(1) have "c \<in> set (associatePlanes s segmented planes nt dt)"
        by (simp add: associatePlanes_def)
      moreover have "isNormalAroundAxis s (normal c') (normal c') nt"
        using refl(1) by blast
      then have "planes_match s nt dt c' c"
        using refl(2) c(2) by (simp add: planes_match_def geometry_def)
      ultimately show ?thesis by (auto simp: list_ex_iff)
    qed
  qed
  then show ?thesis
    by (simp add: associatePlanes_def filter_empty_conv del: list_ex_append)
qed

subsection \<open>The whole pass\<close>

lemma clusterPlanesFromMesh_eq:
  "clusterPlanesFromMesh s mesh_3d planes points =
     updatePlanesLmkIdsFromMesh (calculateNormal s) (isNormalAroundAxis s)
       (use_extra_lmks_from_stereo s) (associate_a_polygon_to_a_single_plane s) mesh_3d
       (planes @
        associatePlanes s
          (segmentNewPlanes s (fresh_plane_id planes) (z_components s mesh_3d) (walls s mesh_3d))
          planes (normal_tolerance_plane_plane_association s)
          (distance_tolerance_plane_plane_association s))
       (normal_tolerance_polygon_plane_association s)
       (distance_tolerance_polygon_plane_association s) points"
  by (simp add: clusterPlanesFromMesh_def Let_def)

text \<open>
  Claim C8, on \<^verbatim>\<open>clusterPlanesFromMesh\<close> as modelled from the spec, the whole pass of
  segmentation, association of planes and association of landmarks: for every mesh and
  every list of tracked planes, a second pass on the same mesh and on the planes that a
  first pass returned gives each of these planes back as it is, so every plane has the
  same landmark ids after two passes as after one. When a normal counts as close to
  itself and the distance tolerance of the plane association is not negative, the
  candidates of the second pass all match a plane of the first, no plane is added, and the
  second pass returns the planes of the first. Planes whose landmark ids have no
  duplicates before a pass have none after it. This holds for either value of the flag
  that associates a polygon to a single plane, and whatever the normal computation, the
  normal tests and the peak detection of the histograms are.
\<close>

theorem clusterPlanesFromMesh_idempotent:
  "take (length (clusterPlanesFromMesh s mesh_3d planes points_with_id_vio))
     (clusterPlanesFromMesh s mesh_3d
        (clusterPlanesFromMesh s mesh_3d planes points_with_id_vio) points_with_id_vio) =
   clusterPlanesFromMesh s mesh_3d planes points_with_id_vio \<and>
   ((\<forall>n. isNormalAroundAxis s n n (normal_tolerance_plane_plane_association s)) \<and>
    0 \<le> distance_tolerance_plane_plane_association s \<longrightarrow>
    clusterPlanesFromMesh s mesh_3d
      (clusterPlanesFromMesh s mesh_3d planes points_with_id_vio) points_with_id_vio =
    clusterPlanesFromMesh s mesh_3d planes points_with_id_vio) \<and>
   ((\<forall>plane \<in> set planes. distinct (lmk_ids plane)) \<longrightarrow>
    (\<forall>plane \<in> set (clusterPlanesFromMesh s mesh_3d planes points_with_id_vio).
       distinct (lmk_ids plane)))"
proof -
  let ?nt = "normal_tolerance_plane_plane_association s"
  let ?dt = "distance_tolerance_plane_plane_association s"
  let ?U = "\<lambda>ps. updatePlanesLmkIdsFromMesh (calculateNormal s) (isNormalAroundAxis s)
       (use_extra_lmks_from_stereo s) (associate_a_polygon_to_a_single_plane s) mesh_3d ps
       (normal_tolerance_polygon_plane_association s)
       (distance_tolerance_polygon_plane_association s) points_with_id_vio"
  let ?C = "\<lambda>ps. segmentNewPlanes s (fresh_plane_id ps) (z_components s mesh_3d)
       (walls s mesh_3d)"
  let ?N = "\<lambda>ps. associatePlanes s (?C ps) ps ?nt ?dt"
  let ?Q = "clusterPlanesFromMesh s mesh_3d planes points_with_id_vio"
  have Q: "?Q = ?U (planes @ ?N planes)"
    by (rule clusterPlanesFromMesh_eq)
  have FQ: "clusterPlanesFromMesh s mesh_3d ?Q points_with_id_vio = ?U (?Q @ ?N ?Q)"
    by (rule clusterPlanesFromMesh_eq)
  have UQ: "?U ?Q = ?Q"
    unfolding Q by (rule updatePlanesLmkIdsFromMesh_idem)
  have 1: "take (length ?Q) (clusterPlanesFromMesh s mesh_3d ?Q points_with_id_vio) = ?Q"
    unfolding FQ by (simp only: updatePlanesLmkIdsFromMesh_prefix UQ)
  have 2: "clusterPlanesFromMesh s mesh_3d ?Q points_with_id_vio = ?Q"
    if refl: "(\<forall>n. isNormalAroundAxis s n n ?nt) \<and> 0 \<le> ?dt"
  proof -
    have grown: "list_all2 grown (planes @ ?N planes) ?Q"
      unfolding Q by (rule updatePlanesLmkIdsFromMesh_grown)
    have "?N ?Q = associatePlanes s (?C ?Q) (planes @ ?N planes) ?nt ?dt"
      by (rule associatePlanes_grown [OF grown])
    also have "\<dots> = []"
      using refl by (intro associatePlanes_second_pass map_geometry_segmentNewPlanes) simp_all
    finally have "?N ?Q = []" .
    with FQ UQ show ?thesis by simp
  qed
  have 3: "\<forall>plane \<in> set ?Q. distinct (lmk_ids plane)"
    if d: "\<forall>plane \<in> set planes. distinct (lmk_ids plane)"
  proof -
    have "\<forall>plane \<in> set (planes @ ?N planes). distinct (lmk_ids plane)"
      using d set_associatePlanes [of s "?C planes" planes ?nt ?dt]
      by (auto dest!: subsetD dest: lmk_ids_segmentNewPlanes)
    then show ?thesis
      unfolding Q by (rule updatePlanesLmkIdsFromMesh_distinct)
  qed
  from 1 2 3 show ?thesis by blast
qed

text \<open>
  A tracked plane at height 5 and the 3-4-5 triangle at height 0: the first pass keeps the
  tracked plane, seeds a new plane at height 0 with the fresh identifier 1 and gives it
  the landmarks 1, 2, 3; a second pass on the result changes nothing.
\<close>

theorem clusterPlanesFromMesh_idempotent_witness:
  "clusterPlanesFromMesh example_segmentation [example_triangle] [example_shelf] Map.empty =
     [example_shelf, example_plane\<lparr>plane_id := 1, lmk_ids := [1, 2, 3]\<rparr>] \<and>
   clusterPlanesFromMesh example_segmentation [example_triangle]
     [example_shelf, example_plane\<lparr>plane_id := 1, lmk_ids := [1, 2, 3]\<rparr>] Map.empty =
     [example_shelf, example_plane\<lparr>plane_id := 1, lmk_ids := [1, 2, 3]\<rparr>]"
proof -
  have once: "clusterPlanesFromMesh example_segmentation [example_triangle] [example_shelf]
      Map.empty =
     [example_shelf, example_plane\<lparr>plane_id := 1, lmk_ids := [1, 2, 3]\<rparr>]"
    by (simp add: clusterPlanesFromMesh_def segmentNewPlanes_def segmentHorizontalPlanes_def
        segmentWalls_def associatePlanes_def planes_match_def fresh_plane_id_def
        z_components_def walls_def polygon_normal_def representative_point_def vertical_def
        example_segmentation_def example_shelf_def
        updatePlanesLmkIdsFromMesh_def update_planes_from_mesh_polygon_def
        example_triangle_def example_vertex_def example_plane_def example_calculate_normal_def
        example_normal_around_axis_def isPolygonAtDistanceFromPlane_def
        isPointAtDistanceFromPlane_def polygon_vertices_def polygon_lmk_ids_def dot_def
        appendLmkIdsOfPolygon_def append_lmk_id_def)
  have refl: "(\<forall>n. isNormalAroundAxis example_segmentation n n
                  (normal_tolerance_plane_plane_association example_segmentation)) \<and>
      0 \<le> distance_tolerance_plane_plane_association example_segmentation"
    by (simp add: example_segmentation_def example_normal_around_axis_def)
  from clusterPlanesFromMesh_idempotent
    [of example_segmentation "[example_triangle]" "[example_shelf]" Map.empty] refl
  show ?thesis by (simp add: once)
qed

end
